theory Spec2Isabelle
  imports Main "HOL-Library.Word" "HOL-Library.AList"
begin

unbundle bit_operations_syntax

section \<open>The transaction of prosemirror-state (src/transaction.js)\<close>

text \<open>
  A \<open>Transaction\<close> extends the \<open>Transform\<close> of prosemirror-transform and uses the
  document model of prosemirror-model and the \<open>Selection\<close> class of ./selection. None of
  these is part of transaction.js, so everything the file calls on them is a parameter of
  the model, collected in the record \<open>ext\<close>. The type variables stand for the values of
  those libraries:
  \<open>'d\<close> documents, \<open>'s\<close> steps, \<open>'m\<close> step maps, \<open>'l\<close> selections, \<open>'p\<close> resolved
  positions, \<open>'k\<close> marks, \<open>'t\<close> mark types, \<open>'n\<close> nodes, \<open>'c\<close> slices. Document
  positions are integers; a set of marks is the array of its marks (\<open>Mark.none\<close> is the
  empty array).
\<close>

subsection \<open>Errors\<close>

text \<open>
  \<open>TypeError\<close> is what JavaScript throws on a property read from \<open>null\<close> or
  \<open>undefined\<close>; \<open>TransformError\<close> stands for whatever an inherited transform
  operation throws. A method that can throw returns \<open>Inl (e, tr)\<close>, where \<open>tr\<close> is the
  transaction as the throw leaves it (methods mutate the object in place), or
  \<open>Inr tr\<close>, the transaction after a normal return.
\<close>

datatype error = TypeError | TransformError

subsection \<open>What transaction.js calls on other modules\<close>

record ('d, 's, 'm, 'l, 'p, 'k, 't, 'n, 'c) ext =
  Step_getMap :: "'s \<Rightarrow> 'm"
    \<comment> \<open>\<open>step.getMap()\<close>\<close>
  StepMap_forEach :: "'m \<Rightarrow> (int \<times> int \<times> int \<times> int) list"
    \<comment> \<open>\<open>map.forEach(f)\<close>: the arguments \<open>(from, to, newFrom, newTo)\<close> of the calls of
        \<open>f\<close>, in the order of the calls\<close>
  Selection_map :: "'l \<Rightarrow> 'd \<Rightarrow> 'm list \<Rightarrow> 'l"
    \<comment> \<open>\<open>selection.map(doc, mapping)\<close>, the mapping given by its step maps\<close>
  Selection_near :: "'p \<Rightarrow> int \<Rightarrow> 'l"
    \<comment> \<open>\<open>Selection.near($pos, bias)\<close>\<close>
  Selection_from :: "'l \<Rightarrow> int"
  Selection_to :: "'l \<Rightarrow> int"
  Selection_rfrom :: "'l \<Rightarrow> 'p"
    \<comment> \<open>\<open>selection.$from\<close>\<close>
  Selection_head :: "'l \<Rightarrow> int option"
    \<comment> \<open>\<open>selection.head\<close>, \<open>None\<close> when it is \<open>null\<close> or \<open>undefined\<close>\<close>
  Selection_rhead :: "'l \<Rightarrow> 'p"
    \<comment> \<open>\<open>selection.$head\<close>\<close>
  ResolvedPos_marks :: "'p \<Rightarrow> bool \<Rightarrow> 'k list"
    \<comment> \<open>\<open>$pos.marks(after)\<close>\<close>
  Node_resolve :: "'d \<Rightarrow> int \<Rightarrow> 'p"
    \<comment> \<open>\<open>doc.resolve(pos)\<close>\<close>
  Mark_addToSet :: "'k \<Rightarrow> 'k list \<Rightarrow> 'k list"
  Mark_removeFromSet :: "'k \<Rightarrow> 'k list \<Rightarrow> 'k list"
  MarkType_removeFromSet :: "'t \<Rightarrow> 'k list \<Rightarrow> 'k list"
  Slice_lastChild :: "'c \<Rightarrow> 'n option"
    \<comment> \<open>\<open>slice.content.lastChild\<close>, \<open>None\<close> for \<open>null\<close>\<close>
  Slice_openRight :: "'c \<Rightarrow> nat"
  Node_lastChild :: "'n \<Rightarrow> 'n option"
  Node_isInline :: "'n \<Rightarrow> bool"
  Node_isTextblock :: "'n \<Rightarrow> bool"
  Node_mark :: "'n \<Rightarrow> 'k list \<Rightarrow> 'n"
    \<comment> \<open>\<open>node.mark(marks)\<close>\<close>
  Schema_text :: "'d \<Rightarrow> string \<Rightarrow> 'k list option \<Rightarrow> 'n"
    \<comment> \<open>\<open>doc.type.schema.text(text, marks)\<close>, \<open>None\<close> when \<open>marks\<close> is omitted\<close>
  Transform_replaceRange :: "'d \<Rightarrow> int \<Rightarrow> int \<Rightarrow> 'c \<Rightarrow> ('s \<times> 'd) list \<times> error option"
  Transform_replaceRangeWith ::
    "'d \<Rightarrow> int \<Rightarrow> int option \<Rightarrow> 'n \<Rightarrow> ('s \<times> 'd) list \<times> error option"
  Transform_deleteRange :: "'d \<Rightarrow> int \<Rightarrow> int option \<Rightarrow> ('s \<times> 'd) list \<times> error option"

text \<open>
  An inherited transform operation, run on the current document, hands a sequence of
  steps to \<open>this.addStep(step, doc)\<close>, each with the document it produces, and then
  returns or throws: the three \<open>Transform_\<close> fields give that sequence and the error
  thrown after it, if any. \<open>insertText\<close> can hand a \<open>null\<close> end position on to
  \<open>replaceRangeWith\<close> and \<open>deleteRange\<close>, so their \<open>to\<close> is optional (\<open>None\<close> for
  \<open>null\<close>).
\<close>

subsection \<open>A removeStoredMark argument: a mark or a mark type\<close>

datatype ('k, 't) mark_or_type = IsMark 'k | IsMarkType 't

subsection \<open>JavaScript values, as far as metadata keys need them\<close>

text \<open>
  Strings, \<open>null\<close>, \<open>undefined\<close>, booleans, and plain objects: an object is the list
  of its own data properties, its prototype is \<open>Object.prototype\<close>, and the values of
  its properties are values of this type again, so no property of it is callable.
\<close>

datatype jsval =
    JString string
  | JNull
  | JUndefined
  | JBool bool
  | JObject "(string \<times> jsval) list"

text \<open>\<open>key.key\<close>: a property read, throwing on \<open>null\<close> and \<open>undefined\<close>; a value without
  the property gives \<open>undefined\<close>.\<close>

fun get_key_property :: "jsval \<Rightarrow> jsval option" where
  "get_key_property JNull = None"
| "get_key_property JUndefined = None"
| "get_key_property (JObject props) =
     (case map_of props ''key'' of None \<Rightarrow> Some JUndefined | Some v \<Rightarrow> Some v)"
| "get_key_property (JString s) = Some JUndefined"
| "get_key_property (JBool b) = Some JUndefined"

text \<open>
  The property name that \<open>obj[k]\<close> uses for a value \<open>k\<close>, or \<open>None\<close> when the
  conversion throws a \<open>TypeError\<close>. An object is converted by its \<open>toString\<close>, then its
  \<open>valueOf\<close>, whichever is callable and gives a primitive. Without an own \<open>toString\<close>
  property that is \<open>Object.prototype.toString\<close>, which gives \<open>[object Object]\<close>. An own
  \<open>toString\<close> property is not callable here; then neither an own \<open>valueOf\<close> (not
  callable) nor \<open>Object.prototype.valueOf\<close> (it returns the object) gives a primitive,
  and the conversion throws.
\<close>

fun to_property_key :: "jsval \<Rightarrow> string option" where
  "to_property_key (JString s) = Some s"
| "to_property_key JNull = Some ''null''"
| "to_property_key JUndefined = Some ''undefined''"
| "to_property_key (JBool b) = Some (if b then ''true'' else ''false'')"
| "to_property_key (JObject props) =
     (case map_of props ''toString'' of
        None \<Rightarrow> Some ''[object Object]''
      | Some f \<Rightarrow> None)"

subsection \<open>The state of a transaction\<close>

type_synonym flags = "32 word"

definition UPDATED_SEL :: flags where "UPDATED_SEL = 1"
definition UPDATED_MARKS :: flags where "UPDATED_MARKS = 2"
definition UPDATED_SCROLL :: flags where "UPDATED_SCROLL = 4"

record ('d, 'l, 'k) editor_state =
  state_doc :: 'd
  state_selection :: 'l
  state_storedMarks :: "'k list option"

text \<open>
  The fields \<open>doc\<close>, \<open>docs\<close>, \<open>steps\<close> and \<open>mapping_maps\<close> (the array
  \<open>mapping.maps\<close>) are those of the inherited \<open>Transform\<close>; the rest are set by the
  constructor of \<open>Transaction\<close>. \<open>curSelectionFor\<close> only ever receives \<open>0\<close> or
  \<open>steps.length\<close>, so it is a natural number. \<open>meta\<close> is the object created by
  \<open>Object.create(null)\<close>, as the list of its properties.
\<close>

record ('d, 's, 'm, 'l, 'k, 'v) transaction =
  doc :: 'd
  docs :: "'d list"
  steps :: "'s list"
  mapping_maps :: "'m list"
  time :: int
  curSelection :: 'l
  curSelectionFor :: nat
  storedMarks :: "'k list option"
  updated :: flags
  meta :: "(string \<times> 'v) list"

subsection \<open>Constructor\<close>

text \<open>\<open>now\<close> is the value of \<open>Date.now()\<close>. \<open>super(state.doc)\<close> starts the transform
  with no steps.\<close>

definition Transaction ::
  "('d, 'l, 'k) editor_state \<Rightarrow> int \<Rightarrow> ('d, 's, 'm, 'l, 'k, 'v) transaction" where
  "Transaction state now =
     \<lparr> doc = state_doc state, docs = [], steps = [], mapping_maps = [],
       time = now,
       curSelection = state_selection state,
       curSelectionFor = 0,
       storedMarks = state_storedMarks state,
       updated = 0,
       meta = [] \<rparr>"

subsection \<open>Selection\<close>

text \<open>\<open>mapping.slice(n)\<close> is the mapping through the step maps from index \<open>n\<close> on. The
  getter returns the selection and the transaction with the cache it may have updated.\<close>

definition selection ::
  "('d, 's, 'm, 'l, 'p, 'k, 't, 'n, 'c) ext \<Rightarrow> ('d, 's, 'm, 'l, 'k, 'v) transaction
     \<Rightarrow> 'l \<times> ('d, 's, 'm, 'l, 'k, 'v) transaction" where
  "selection E tr =
     (if curSelectionFor tr < length (steps tr) then
        let tr1 = tr\<lparr>curSelection :=
                     Selection_map E (curSelection tr) (doc tr)
                       (drop (curSelectionFor tr) (mapping_maps tr))\<rparr>;
            tr2 = tr1\<lparr>curSelectionFor := length (steps tr1)\<rparr>
        in (curSelection tr2, tr2)
      else (curSelection tr, tr))"

definition setSelection ::
  "('d, 's, 'm, 'l, 'k, 'v) transaction \<Rightarrow> 'l \<Rightarrow> ('d, 's, 'm, 'l, 'k, 'v) transaction" where
  "setSelection tr sel =
     tr\<lparr>curSelection := sel,
        curSelectionFor := length (steps tr),
        updated := (updated tr OR UPDATED_SEL) AND NOT UPDATED_MARKS,
        storedMarks := None\<rparr>"

text \<open>The comparisons \<open>> 0\<close> are on the signed 32-bit result of \<open>&\<close>.\<close>

definition selectionSet :: "('d, 's, 'm, 'l, 'k, 'v) transaction \<Rightarrow> bool" where
  "selectionSet tr = (0 < sint (updated tr AND UPDATED_SEL))"

definition setStoredMarks ::
  "('d, 's, 'm, 'l, 'k, 'v) transaction \<Rightarrow> 'k list option
     \<Rightarrow> ('d, 's, 'm, 'l, 'k, 'v) transaction" where
  "setStoredMarks tr marks =
     tr\<lparr>storedMarks := marks, updated := updated tr OR UPDATED_MARKS\<rparr>"

definition storedMarksSet :: "('d, 's, 'm, 'l, 'k, 'v) transaction \<Rightarrow> bool" where
  "storedMarksSet tr = (0 < sint (updated tr AND UPDATED_MARKS))"

subsection \<open>Appending a step\<close>

text \<open>\<open>Transform.addStep\<close> of prosemirror-transform: push the current document, the step
  and the step's map, and make \<open>doc\<close> the current document.\<close>

definition Transform_addStep ::
  "('d, 's, 'm, 'l, 'p, 'k, 't, 'n, 'c) ext \<Rightarrow> ('d, 's, 'm, 'l, 'k, 'v) transaction
     \<Rightarrow> 's \<Rightarrow> 'd \<Rightarrow> ('d, 's, 'm, 'l, 'k, 'v) transaction" where
  "Transform_addStep E tr step d =
     tr\<lparr>docs := docs tr @ [doc tr],
        steps := steps tr @ [step],
        mapping_maps := mapping_maps tr @ [Step_getMap E step],
        doc := d\<rparr>"

definition addStep ::
  "('d, 's, 'm, 'l, 'p, 'k, 't, 'n, 'c) ext \<Rightarrow> ('d, 's, 'm, 'l, 'k, 'v) transaction
     \<Rightarrow> 's \<Rightarrow> 'd \<Rightarrow> ('d, 's, 'm, 'l, 'k, 'v) transaction" where
  "addStep E tr step d =
     (let tr1 = Transform_addStep E tr step d
      in tr1\<lparr>updated := updated tr1 AND NOT UPDATED_MARKS, storedMarks := None\<rparr>)"

text \<open>An inherited operation calls \<open>this.addStep\<close> for each of its steps in turn, and
  returns or throws.\<close>

fun addSteps ::
  "('d, 's, 'm, 'l, 'p, 'k, 't, 'n, 'c) ext \<Rightarrow> ('d, 's, 'm, 'l, 'k, 'v) transaction
     \<Rightarrow> ('s \<times> 'd) list \<Rightarrow> ('d, 's, 'm, 'l, 'k, 'v) transaction" where
  "addSteps E tr [] = tr"
| "addSteps E tr ((step, d) # rest) = addSteps E (addStep E tr step d) rest"

definition inherited ::
  "('d, 's, 'm, 'l, 'p, 'k, 't, 'n, 'c) ext \<Rightarrow> ('d, 's, 'm, 'l, 'k, 'v) transaction
     \<Rightarrow> ('s \<times> 'd) list \<times> error option
     \<Rightarrow> (error \<times> ('d, 's, 'm, 'l, 'k, 'v) transaction) + ('d, 's, 'm, 'l, 'k, 'v) transaction" where
  "inherited E tr r =
     (let tr1 = addSteps E tr (fst r)
      in case snd r of None \<Rightarrow> Inr tr1 | Some e \<Rightarrow> Inl (e, tr1))"

definition replaceRange ::
  "('d, 's, 'm, 'l, 'p, 'k, 't, 'n, 'c) ext \<Rightarrow> ('d, 's, 'm, 'l, 'k, 'v) transaction
     \<Rightarrow> int \<Rightarrow> int \<Rightarrow> 'c
     \<Rightarrow> (error \<times> ('d, 's, 'm, 'l, 'k, 'v) transaction) + ('d, 's, 'm, 'l, 'k, 'v) transaction" where
  "replaceRange E tr from to slc =
     inherited E tr (Transform_replaceRange E (doc tr) from to slc)"

definition replaceRangeWith ::
  "('d, 's, 'm, 'l, 'p, 'k, 't, 'n, 'c) ext \<Rightarrow> ('d, 's, 'm, 'l, 'k, 'v) transaction
     \<Rightarrow> int \<Rightarrow> int option \<Rightarrow> 'n
     \<Rightarrow> (error \<times> ('d, 's, 'm, 'l, 'k, 'v) transaction) + ('d, 's, 'm, 'l, 'k, 'v) transaction" where
  "replaceRangeWith E tr from to node =
     inherited E tr (Transform_replaceRangeWith E (doc tr) from to node)"

definition deleteRange ::
  "('d, 's, 'm, 'l, 'p, 'k, 't, 'n, 'c) ext \<Rightarrow> ('d, 's, 'm, 'l, 'k, 'v) transaction
     \<Rightarrow> int \<Rightarrow> int option
     \<Rightarrow> (error \<times> ('d, 's, 'm, 'l, 'k, 'v) transaction) + ('d, 's, 'm, 'l, 'k, 'v) transaction" where
  "deleteRange E tr from to =
     inherited E tr (Transform_deleteRange E (doc tr) from to)"

definition setTime ::
  "('d, 's, 'm, 'l, 'k, 'v) transaction \<Rightarrow> int \<Rightarrow> ('d, 's, 'm, 'l, 'k, 'v) transaction" where
  "setTime tr t = tr\<lparr>time := t\<rparr>"

subsection \<open>Moving the selection to the end of inserted content\<close>

text \<open>The callback of \<open>forEach\<close> overwrites \<open>end\<close> at each call, so \<open>end\<close> is the
  \<open>newTo\<close> of the last call, and stays \<open>undefined\<close> when there is none. Reading
  \<open>maps[maps.length - 1]\<close> of an empty array gives \<open>undefined\<close>, and \<open>map.forEach\<close>
  throws.\<close>

definition forEach_end :: "(int \<times> int \<times> int \<times> int) list \<Rightarrow> int option" where
  "forEach_end calls =
     foldl (\<lambda>endp (from, to, newFrom, newTo). Some newTo) None calls"

text \<open>The \<open>newTo\<close> argument of one call of the callback.\<close>

definition newTo_of :: "int \<times> int \<times> int \<times> int \<Rightarrow> int" where
  "newTo_of call = (case call of (from, to, newFrom, newTo) \<Rightarrow> newTo)"

definition selectionToInsertionEnd ::
  "('d, 's, 'm, 'l, 'p, 'k, 't, 'n, 'c) ext \<Rightarrow> ('d, 's, 'm, 'l, 'k, 'v) transaction
     \<Rightarrow> nat \<Rightarrow> int
     \<Rightarrow> (error \<times> ('d, 's, 'm, 'l, 'k, 'v) transaction) + ('d, 's, 'm, 'l, 'k, 'v) transaction" where
  "selectionToInsertionEnd E tr startLen bias =
     (if length (steps tr) = startLen then Inr tr
      else if mapping_maps tr = [] then Inl (TypeError, tr)
      else
        let map = last (mapping_maps tr) in
        case forEach_end (StepMap_forEach E map) of
          None \<Rightarrow> Inr tr
        | Some endp \<Rightarrow> Inr (setSelection tr (Selection_near E (Node_resolve E (doc tr) endp) bias)))"

definition currentMarks ::
  "('d, 's, 'm, 'l, 'p, 'k, 't, 'n, 'c) ext \<Rightarrow> 'l \<Rightarrow> 'k list" where
  "currentMarks E sel =
     (case Selection_head E sel of
        None \<Rightarrow> []
      | Some _ \<Rightarrow> ResolvedPos_marks E (Selection_rhead E sel) False)"

subsection \<open>Replacing the selection\<close>

text \<open>The loop of \<open>replaceSelection\<close>: \<open>k\<close> iterations are left to run; reading
  \<open>lastNode.lastChild\<close> of \<open>null\<close> throws.\<close>

fun descend ::
  "('d, 's, 'm, 'l, 'p, 'k, 't, 'n, 'c) ext \<Rightarrow> nat \<Rightarrow> 'n option \<Rightarrow> 'n option
     \<Rightarrow> ('n option \<times> 'n option) option" where
  "descend E 0 lastNode lastParent = Some (lastNode, lastParent)"
| "descend E (Suc k) lastNode lastParent =
     (case lastNode of
        None \<Rightarrow> None
      | Some nd \<Rightarrow> descend E k (Node_lastChild E nd) (Some nd))"

text \<open>The third argument that \<open>replaceSelection\<close> gives to \<open>selectionToInsertionEnd\<close>,
  or the error of the loop.\<close>

definition replaceSelection_bias ::
  "('d, 's, 'm, 'l, 'p, 'k, 't, 'n, 'c) ext \<Rightarrow> 'c \<Rightarrow> error + int" where
  "replaceSelection_bias E slc =
     (case descend E (Slice_openRight E slc) (Slice_lastChild E slc) None of
        None \<Rightarrow> Inl TypeError
      | Some (lastNode, lastParent) \<Rightarrow>
          Inr (if (case lastNode of
                     Some nd \<Rightarrow> Node_isInline E nd
                   | None \<Rightarrow> (case lastParent of None \<Rightarrow> False
                               | Some p \<Rightarrow> Node_isTextblock E p))
               then - 1 else 1))"

definition replaceSelection ::
  "('d, 's, 'm, 'l, 'p, 'k, 't, 'n, 'c) ext \<Rightarrow> ('d, 's, 'm, 'l, 'k, 'v) transaction \<Rightarrow> 'c
     \<Rightarrow> (error \<times> ('d, 's, 'm, 'l, 'k, 'v) transaction) + ('d, 's, 'm, 'l, 'k, 'v) transaction" where
  "replaceSelection E tr slc =
     (let (sel, tr1) = selection E tr;
          from = Selection_from E sel; to = Selection_to E sel;
          startLen = length (steps tr1)
      in case replaceRange E tr1 from to slc of
           Inl err \<Rightarrow> Inl err
         | Inr tr2 \<Rightarrow>
             (case replaceSelection_bias E slc of
                Inl e \<Rightarrow> Inl (e, tr2)
              | Inr bias \<Rightarrow> selectionToInsertionEnd E tr2 startLen bias))"

text \<open>\<open>inheritMarks\<close> is \<open>None\<close> when the argument is omitted.\<close>

definition replaceSelectionWith ::
  "('d, 's, 'm, 'l, 'p, 'k, 't, 'n, 'c) ext \<Rightarrow> ('d, 's, 'm, 'l, 'k, 'v) transaction
     \<Rightarrow> 'n \<Rightarrow> bool option
     \<Rightarrow> (error \<times> ('d, 's, 'm, 'l, 'k, 'v) transaction) + ('d, 's, 'm, 'l, 'k, 'v) transaction" where
  "replaceSelectionWith E tr node inheritMarks =
     (let (sel, tr1) = selection E tr;
          rfrom = Selection_rfrom E sel;
          from = Selection_from E sel; to = Selection_to E sel;
          startLen = length (steps tr1);
          node1 = (if inheritMarks \<noteq> Some False then
                     Node_mark E node
                       (case storedMarks tr1 of
                          Some ms \<Rightarrow> ms
                        | None \<Rightarrow> ResolvedPos_marks E rfrom (to > from))
                   else node)
      in case replaceRangeWith E tr1 from (Some to) node1 of
           Inl err \<Rightarrow> Inl err
         | Inr tr2 \<Rightarrow>
             selectionToInsertionEnd E tr2 startLen (if Node_isInline E node1 then - 1 else 1))"

definition deleteSelection ::
  "('d, 's, 'm, 'l, 'p, 'k, 't, 'n, 'c) ext \<Rightarrow> ('d, 's, 'm, 'l, 'k, 'v) transaction
     \<Rightarrow> (error \<times> ('d, 's, 'm, 'l, 'k, 'v) transaction) + ('d, 's, 'm, 'l, 'k, 'v) transaction" where
  "deleteSelection E tr =
     (let (sel, tr1) = selection E tr
      in deleteRange E tr1 (Selection_from E sel) (Some (Selection_to E sel)))"

text \<open>An argument that can be left out (or \<open>undefined\<close>), be \<open>null\<close>, or be given.\<close>

datatype 'a argument = Omitted | Null | Given 'a

text \<open>
  \<open>from == null\<close> holds for \<open>null\<close> and for an omitted \<open>from\<close> alike, so \<open>from\<close> is
  \<open>None\<close> for both. The default \<open>to = from\<close> applies to an omitted \<open>to\<close> only: a
  \<open>null\<close> stays \<open>null\<close>, is compared as \<open>0\<close> in \<open>to > from\<close>, and is handed on as it
  is. An empty string is falsy.
\<close>

definition insertText ::
  "('d, 's, 'm, 'l, 'p, 'k, 't, 'n, 'c) ext \<Rightarrow> ('d, 's, 'm, 'l, 'k, 'v) transaction
     \<Rightarrow> string \<Rightarrow> int option \<Rightarrow> int argument
     \<Rightarrow> (error \<times> ('d, 's, 'm, 'l, 'k, 'v) transaction) + ('d, 's, 'm, 'l, 'k, 'v) transaction" where
  "insertText E tr text from to0 =
     (case from of
        None \<Rightarrow>
          if text = [] then deleteSelection E tr
          else replaceSelectionWith E tr (Schema_text E (doc tr) text None) (Some True)
      | Some f \<Rightarrow>
          let to = (case to0 of Omitted \<Rightarrow> Some f | Null \<Rightarrow> None | Given t \<Rightarrow> Some t) in
          if text = [] then deleteRange E tr f to
          else
            let to_after = (case to of None \<Rightarrow> 0 > f | Some t \<Rightarrow> t > f);
                node = Schema_text E (doc tr) text
                         (Some (case storedMarks tr of
                                  Some ms \<Rightarrow> ms
                                | None \<Rightarrow> ResolvedPos_marks E (Node_resolve E (doc tr) f) to_after))
            in replaceRangeWith E tr f to node)"

subsection \<open>Metadata\<close>

text \<open>\<open>typeof key == "string" ? key : key.key\<close>, then the store under the property name
  of the result; both the property read and the conversion to a property name can throw,
  before anything is stored.\<close>

definition meta_key :: "jsval \<Rightarrow> jsval option" where
  "meta_key key = (case key of JString s \<Rightarrow> Some (JString s) | _ \<Rightarrow> get_key_property key)"

definition setMeta ::
  "('d, 's, 'm, 'l, 'k, 'v) transaction \<Rightarrow> jsval \<Rightarrow> 'v
     \<Rightarrow> (error \<times> ('d, 's, 'm, 'l, 'k, 'v) transaction) + ('d, 's, 'm, 'l, 'k, 'v) transaction" where
  "setMeta tr key v =
     (case meta_key key of
        None \<Rightarrow> Inl (TypeError, tr)
      | Some k \<Rightarrow>
          (case to_property_key k of
             None \<Rightarrow> Inl (TypeError, tr)
           | Some name \<Rightarrow> Inr (tr\<lparr>meta := AList.update name v (meta tr)\<rparr>)))"

text \<open>The result is \<open>Some None\<close> when the property is absent (\<open>undefined\<close>).\<close>

definition getMeta ::
  "('d, 's, 'm, 'l, 'k, 'v) transaction \<Rightarrow> jsval \<Rightarrow> error + 'v option" where
  "getMeta tr key =
     (case meta_key key of
        None \<Rightarrow> Inl TypeError
      | Some k \<Rightarrow>
          (case to_property_key k of
             None \<Rightarrow> Inl TypeError
           | Some name \<Rightarrow> Inr (map_of (meta tr) name)))"

definition isGeneric :: "('d, 's, 'm, 'l, 'k, 'v) transaction \<Rightarrow> bool" where
  "isGeneric tr = List.null (meta tr)"

subsection \<open>Scrolling\<close>

definition scrollIntoView ::
  "('d, 's, 'm, 'l, 'k, 'v) transaction \<Rightarrow> ('d, 's, 'm, 'l, 'k, 'v) transaction" where
  "scrollIntoView tr = tr\<lparr>updated := updated tr OR UPDATED_SCROLL\<rparr>"

definition scrolledIntoView :: "('d, 's, 'm, 'l, 'k, 'v) transaction \<Rightarrow> bool" where
  "scrolledIntoView tr = (0 < sint (updated tr AND UPDATED_SCROLL))"

subsection \<open>Stored marks\<close>

text \<open>\<open>this.storedMarks || currentMarks(this.selection)\<close>: an array is truthy, so the
  right operand, and with it the selection getter, is evaluated only for \<open>null\<close>.\<close>

definition storedMarks_or_current ::
  "('d, 's, 'm, 'l, 'p, 'k, 't, 'n, 'c) ext \<Rightarrow> ('d, 's, 'm, 'l, 'k, 'v) transaction
     \<Rightarrow> 'k list \<times> ('d, 's, 'm, 'l, 'k, 'v) transaction" where
  "storedMarks_or_current E tr =
     (case storedMarks tr of
        Some ms \<Rightarrow> (ms, tr)
      | None \<Rightarrow> (let (sel, tr1) = selection E tr in (currentMarks E sel, tr1)))"

definition addStoredMark ::
  "('d, 's, 'm, 'l, 'p, 'k, 't, 'n, 'c) ext \<Rightarrow> ('d, 's, 'm, 'l, 'k, 'v) transaction \<Rightarrow> 'k
     \<Rightarrow> ('d, 's, 'm, 'l, 'k, 'v) transaction" where
  "addStoredMark E tr mark =
     (let (ms, tr1) = storedMarks_or_current E tr
      in tr1\<lparr>storedMarks := Some (Mark_addToSet E mark ms)\<rparr>)"

definition removeStoredMark ::
  "('d, 's, 'm, 'l, 'p, 'k, 't, 'n, 'c) ext \<Rightarrow> ('d, 's, 'm, 'l, 'k, 'v) transaction
     \<Rightarrow> ('k, 't) mark_or_type \<Rightarrow> ('d, 's, 'm, 'l, 'k, 'v) transaction" where
  "removeStoredMark E tr mark =
     (let (ms, tr1) = storedMarks_or_current E tr
      in tr1\<lparr>storedMarks :=
               Some (case mark of
                       IsMark m \<Rightarrow> Mark_removeFromSet E m ms
                     | IsMarkType t \<Rightarrow> MarkType_removeFromSet E t ms)\<rparr>)"

subsection \<open>The calls a client can make\<close>

text \<open>
  One constructor for each method of a transaction that changes it. \<open>Call_inherited\<close>
  is any operation inherited from \<open>Transform\<close>, given by the steps it appends and the
  error it throws, if any. A client that catches an error goes on with the transaction as
  the throw left it: \<open>after\<close> is the transaction after a call, whichever way it finished.
\<close>

datatype ('d, 's, 'l, 'k, 't, 'n, 'c, 'v) call =
    Call_selection
  | Call_setSelection 'l
  | Call_setStoredMarks "'k list option"
  | Call_addStep 's 'd
  | Call_inherited "('s \<times> 'd) list" "error option"
  | Call_setTime int
  | Call_replaceSelection 'c
  | Call_replaceSelectionWith 'n "bool option"
  | Call_deleteSelection
  | Call_insertText string "int option" "int argument"
  | Call_setMeta jsval 'v
  | Call_scrollIntoView
  | Call_addStoredMark 'k
  | Call_removeStoredMark "('k, 't) mark_or_type"

fun perform ::
  "('d, 's, 'm, 'l, 'p, 'k, 't, 'n, 'c) ext \<Rightarrow> ('d, 's, 'm, 'l, 'k, 'v) transaction
     \<Rightarrow> ('d, 's, 'l, 'k, 't, 'n, 'c, 'v) call
     \<Rightarrow> (error \<times> ('d, 's, 'm, 'l, 'k, 'v) transaction) + ('d, 's, 'm, 'l, 'k, 'v) transaction" where
  "perform E tr Call_selection = Inr (snd (selection E tr))"
| "perform E tr (Call_setSelection sel) = Inr (setSelection tr sel)"
| "perform E tr (Call_setStoredMarks marks) = Inr (setStoredMarks tr marks)"
| "perform E tr (Call_addStep step d) = Inr (addStep E tr step d)"
| "perform E tr (Call_inherited ps err) = inherited E tr (ps, err)"
| "perform E tr (Call_setTime t) = Inr (setTime tr t)"
| "perform E tr (Call_replaceSelection slc) = replaceSelection E tr slc"
| "perform E tr (Call_replaceSelectionWith node inheritMarks) =
     replaceSelectionWith E tr node inheritMarks"
| "perform E tr Call_deleteSelection = deleteSelection E tr"
| "perform E tr (Call_insertText text from to) = insertText E tr text from to"
| "perform E tr (Call_setMeta key v) = setMeta tr key v"
| "perform E tr Call_scrollIntoView = Inr (scrollIntoView tr)"
| "perform E tr (Call_addStoredMark mark) = Inr (addStoredMark E tr mark)"
| "perform E tr (Call_removeStoredMark mark) = Inr (removeStoredMark E tr mark)"

fun after :: "(error \<times> 'a) + 'a \<Rightarrow> 'a" where
  "after (Inl (e, tr)) = tr"
| "after (Inr tr) = tr"

fun run ::
  "('d, 's, 'm, 'l, 'p, 'k, 't, 'n, 'c) ext \<Rightarrow> ('d, 's, 'm, 'l, 'k, 'v) transaction
     \<Rightarrow> ('d, 's, 'l, 'k, 't, 'n, 'c, 'v) call list \<Rightarrow> ('d, 's, 'm, 'l, 'k, 'v) transaction" where
  "run E tr [] = tr"
| "run E tr (c # cs) = run E (after (perform E tr c)) cs"

subsection \<open>The statements of the specification, in its own words\<close>

text \<open>The invariant of the selection cache: \<open>0 \<le> curSelectionFor \<le> steps.length\<close>.\<close>

definition cache_ok :: "('d, 's, 'm, 'l, 'k, 'v) transaction \<Rightarrow> bool" where
  "cache_ok tr = (0 \<le> curSelectionFor tr \<and> curSelectionFor tr \<le> length (steps tr))"

text \<open>The node reached from \<open>x\<close> by going to the last child \<open>k\<close> times; \<open>None\<close> when
  there is no such node.\<close>

fun rightmost ::
  "('d, 's, 'm, 'l, 'p, 'k, 't, 'n, 'c) ext \<Rightarrow> nat \<Rightarrow> 'n option \<Rightarrow> 'n option" where
  "rightmost E 0 x = x"
| "rightmost E (Suc k) x =
     (case x of None \<Rightarrow> None | Some nd \<Rightarrow> rightmost E k (Node_lastChild E nd))"

text \<open>The bias as the specification words it: backward when the rightmost entity of the
  descent is inline, or when there is no descent and the last top-level node is a
  textblock; forward otherwise.\<close>

definition spec_bias :: "('d, 's, 'm, 'l, 'p, 'k, 't, 'n, 'c) ext \<Rightarrow> 'c \<Rightarrow> int" where
  "spec_bias E slc =
     (if (case rightmost E (Slice_openRight E slc) (Slice_lastChild E slc) of
            Some nd \<Rightarrow> Node_isInline E nd | None \<Rightarrow> False)
         \<or> (Slice_openRight E slc = 0 \<and>
             (case Slice_lastChild E slc of Some nd \<Rightarrow> Node_isTextblock E nd | None \<Rightarrow> False))
      then - 1 else 1)"

text \<open>A metadata key that is a string, or resolves to one through its \<open>key\<close>
  property.\<close>

fun resolvable_key :: "jsval \<Rightarrow> bool" where
  "resolvable_key (JString s) = True"
| "resolvable_key (JObject props) =
     (case map_of props ''key'' of Some (JString s) \<Rightarrow> True | _ \<Rightarrow> False)"
| "resolvable_key _ = False"

subsection \<open>A small instance of the parameters\<close>

text \<open>
  Documents are strings, a step is the list of spans its map reports, a selection is a
  text selection (anchor and head) or a node selection without a head, marks and mark
  types are names, and a slice is its top-level nodes with its open depth on the right.
\<close>

datatype example_selection = Text_sel int int | Node_sel int

datatype example_node = ENode string bool bool "example_node list"

fun enode_children :: "example_node \<Rightarrow> example_node list" where
  "enode_children (ENode name inl tb cs) = cs"

fun enode_inline :: "example_node \<Rightarrow> bool" where
  "enode_inline (ENode name inl tb cs) = inl"

fun enode_textblock :: "example_node \<Rightarrow> bool" where
  "enode_textblock (ENode name inl tb cs) = tb"

definition last_of :: "'a list \<Rightarrow> 'a option" where
  "last_of xs = (if xs = [] then None else Some (last xs))"

fun example_sel_shift :: "int \<Rightarrow> example_selection \<Rightarrow> example_selection" where
  "example_sel_shift n (Text_sel a h) = Text_sel (a + n) (h + n)"
| "example_sel_shift n (Node_sel a) = Node_sel (a + n)"

fun example_sel_from :: "example_selection \<Rightarrow> int" where
  "example_sel_from (Text_sel a h) = min a h"
| "example_sel_from (Node_sel a) = a"

fun example_sel_to :: "example_selection \<Rightarrow> int" where
  "example_sel_to (Text_sel a h) = max a h"
| "example_sel_to (Node_sel a) = a + 1"

fun example_sel_head :: "example_selection \<Rightarrow> int option" where
  "example_sel_head (Text_sel a h) = Some h"
| "example_sel_head (Node_sel a) = None"

type_synonym example_step = "(int \<times> int \<times> int \<times> int) list"

type_synonym example_ext =
  "(string, example_step, example_step, example_selection, int, string, string,
    example_node, example_node list \<times> nat) ext"

definition example_ext :: example_ext where
  "example_ext =
     \<lparr> Step_getMap = (\<lambda>s. s),
       StepMap_forEach = (\<lambda>m. m),
       Selection_map = (\<lambda>sel d ms. example_sel_shift (int (length ms)) sel),
       Selection_near = (\<lambda>p bias. Text_sel (p + bias) (p + bias)),
       Selection_from = example_sel_from,
       Selection_to = example_sel_to,
       Selection_rfrom = example_sel_from,
       Selection_head = example_sel_head,
       Selection_rhead = (\<lambda>sel. case example_sel_head sel of Some h \<Rightarrow> h | None \<Rightarrow> 0),
       ResolvedPos_marks = (\<lambda>p after. if after then [''em''] else [''strong'']),
       Node_resolve = (\<lambda>d p. p),
       Mark_addToSet = (\<lambda>k ks. if k \<in> set ks then ks else ks @ [k]),
       Mark_removeFromSet = (\<lambda>k ks. removeAll k ks),
       MarkType_removeFromSet = (\<lambda>t ks. removeAll t ks),
       Slice_lastChild = (\<lambda>slc. last_of (fst slc)),
       Slice_openRight = snd,
       Node_lastChild = (\<lambda>nd. last_of (enode_children nd)),
       Node_isInline = enode_inline,
       Node_isTextblock = enode_textblock,
       Node_mark = (\<lambda>nd ks. nd),
       Schema_text = (\<lambda>d text ks. ENode text True False []),
       Transform_replaceRange =
         (\<lambda>d from to slc.
            (if from = to \<and> fst slc = [] then []
             else [([(from, to, from, from + int (length (fst slc)))], d @ ''r'')], None)),
       Transform_replaceRangeWith =
         (\<lambda>d from to nd.
            (case to of
               None \<Rightarrow> ([], Some TransformError)
             | Some t \<Rightarrow> ([([(from, t, from, from + 1)], d @ ''w'')], None))),
       Transform_deleteRange =
         (\<lambda>d from to.
            (case to of
               None \<Rightarrow> ([], Some TransformError)
             | Some t \<Rightarrow>
                 (if from = t then [] else [([(from, t, from, from)], d @ ''d'')], None))) \<rparr>"

text \<open>The same, but every range replacement appends one step whose map reports no
  span.\<close>

definition example_ext_no_span :: example_ext where
  "example_ext_no_span =
     example_ext
       \<lparr> Transform_replaceRange := (\<lambda>d from to slc. ([([], d @ ''r'')], None)),
         Transform_replaceRangeWith := (\<lambda>d from to nd. ([([], d @ ''w'')], None)) \<rparr>"

type_synonym example_transaction =
  "(string, example_step, example_step, example_selection, string, nat) transaction"

definition example_state :: "(string, example_selection, string) editor_state" where
  "example_state =
     \<lparr> state_doc = ''abc'', state_selection = Text_sel 1 2, state_storedMarks = Some [''em''] \<rparr>"

definition example_tr :: example_transaction where
  "example_tr = Transaction example_state 1000"

text \<open>A paragraph holding a text node, an empty paragraph, and a blockquote around an
  empty paragraph.\<close>

definition example_text :: example_node where
  "example_text = ENode ''text'' True False []"

definition example_paragraph :: example_node where
  "example_paragraph = ENode ''paragraph'' False True [example_text]"

definition example_empty_paragraph :: example_node where
  "example_empty_paragraph = ENode ''paragraph'' False True []"

definition example_blockquote :: example_node where
  "example_blockquote = ENode ''blockquote'' False False [example_empty_paragraph]"

text \<open>The example transaction after one step that replaces \<open>[1, 2)\<close> by three
  characters.\<close>

definition example_tr_one_step :: example_transaction where
  "example_tr_one_step = addStep example_ext example_tr [(1, 2, 1, 4)] ''aXYZc''"

text \<open>The example transaction with no stored marks, with a text selection and with a
  node selection, which has no head.\<close>

definition example_tr_no_marks :: example_transaction where
  "example_tr_no_marks = example_tr\<lparr>storedMarks := None\<rparr>"

definition example_tr_node_sel :: example_transaction where
  "example_tr_node_sel = example_tr\<lparr>storedMarks := None, curSelection := Node_sel 1\<rparr>"

text \<open>The example transaction after one step whose map reports no span.\<close>

definition example_tr_no_span :: example_transaction where
  "example_tr_no_span = addStep example_ext example_tr [] ''abc''"

text \<open>The example transaction after one step whose map reports two spans.\<close>

definition example_tr_two_spans :: example_transaction where
  "example_tr_two_spans =
     addStep example_ext example_tr [(1, 2, 1, 3), (5, 6, 6, 9)] ''aXYbcdeUVWf''"

text \<open>The one-step example transaction, its cache not yet mapped through the step, after
  \<open>setStoredMarks\<close>.\<close>

definition example_tr_marks_set :: example_transaction where
  "example_tr_marks_set = setStoredMarks example_tr_one_step (Some [''em''])"

text \<open>That transaction after \<open>replaceSelection\<close> with a slice of one paragraph, where the
  range replacement appends a step whose map reports no span.\<close>

definition example_tr_replaced :: example_transaction where
  "example_tr_replaced =
     after (replaceSelection example_ext_no_span example_tr_marks_set ([example_paragraph], 0))"

section \<open>Properties\<close>

subsection \<open>The update bitfield\<close>

lemma sel_bit: "((u OR UPDATED_SEL) AND NOT UPDATED_MARKS) AND UPDATED_SEL = 1"
  unfolding UPDATED_SEL_def UPDATED_MARKS_def
  by (rule bit_word_eqI) (auto simp: bit_simps)

lemma marks_bit: "(u AND NOT UPDATED_MARKS) AND UPDATED_MARKS = 0"
  by (simp add: and.assoc)

lemma marks_bit_sel: "((u OR UPDATED_SEL) AND NOT UPDATED_MARKS) AND UPDATED_MARKS = 0"
  by (simp add: and.assoc)

lemma keep_sel_bit: "(u AND NOT UPDATED_MARKS) AND UPDATED_SEL = u AND UPDATED_SEL"
  unfolding UPDATED_SEL_def UPDATED_MARKS_def
  by (rule bit_word_eqI) (auto simp: bit_simps)

lemma keep_scroll_bit: "(u AND NOT UPDATED_MARKS) AND UPDATED_SCROLL = u AND UPDATED_SCROLL"
  unfolding UPDATED_SCROLL_def UPDATED_MARKS_def
  by (rule bit_word_eqI) (auto simp: bit_simps)

lemma other_bits_setSelection:
  "((u OR UPDATED_SEL) AND NOT UPDATED_MARKS) AND NOT (UPDATED_SEL OR UPDATED_MARKS) =
     u AND NOT (UPDATED_SEL OR UPDATED_MARKS)"
  unfolding UPDATED_SEL_def UPDATED_MARKS_def
  by (rule bit_word_eqI) (auto simp: bit_simps)

lemma scroll_bit_setSelection:
  "((u OR UPDATED_SEL) AND NOT UPDATED_MARKS) AND UPDATED_SCROLL = u AND UPDATED_SCROLL"
  unfolding UPDATED_SEL_def UPDATED_MARKS_def UPDATED_SCROLL_def
  by (rule bit_word_eqI) (auto simp: bit_simps)

subsection \<open>The fields of the example parameters\<close>

lemma example_ext_fields:
  "Step_getMap example_ext = (\<lambda>s. s)"
  "StepMap_forEach example_ext = (\<lambda>m. m)"
  "Selection_map example_ext = (\<lambda>sel d ms. example_sel_shift (int (length ms)) sel)"
  "Selection_near example_ext = (\<lambda>p bias. Text_sel (p + bias) (p + bias))"
  "Selection_from example_ext = example_sel_from"
  "Selection_to example_ext = example_sel_to"
  "Selection_head example_ext = example_sel_head"
  "Selection_rhead example_ext = (\<lambda>sel. case example_sel_head sel of Some h \<Rightarrow> h | None \<Rightarrow> 0)"
  "ResolvedPos_marks example_ext = (\<lambda>p after. if after then [''em''] else [''strong''])"
  "Node_resolve example_ext = (\<lambda>d p. p)"
  "Mark_addToSet example_ext = (\<lambda>k ks. if k \<in> set ks then ks else ks @ [k])"
  "Mark_removeFromSet example_ext = (\<lambda>k ks. removeAll k ks)"
  "MarkType_removeFromSet example_ext = (\<lambda>t ks. removeAll t ks)"
  "Slice_lastChild example_ext = (\<lambda>slc. last_of (fst slc))"
  "Slice_openRight example_ext = snd"
  "Node_lastChild example_ext = (\<lambda>nd. last_of (enode_children nd))"
  "Node_isInline example_ext = enode_inline"
  "Node_isTextblock example_ext = enode_textblock"
  by (simp_all add: example_ext_def)

lemma example_ext_no_span_fields:
  "Step_getMap example_ext_no_span = (\<lambda>s. s)"
  "StepMap_forEach example_ext_no_span = (\<lambda>m. m)"
  "Selection_from example_ext_no_span = example_sel_from"
  "Selection_to example_ext_no_span = example_sel_to"
  "Slice_lastChild example_ext_no_span = (\<lambda>slc. last_of (fst slc))"
  "Slice_openRight example_ext_no_span = snd"
  "Node_isInline example_ext_no_span = enode_inline"
  "Node_mark example_ext_no_span = (\<lambda>nd ks. nd)"
  "Transform_replaceRange example_ext_no_span = (\<lambda>d from to slc. ([([], d @ ''r'')], None))"
  "Transform_replaceRangeWith example_ext_no_span = (\<lambda>d from to nd. ([([], d @ ''w'')], None))"
  "Selection_map example_ext_no_span = (\<lambda>sel d ms. example_sel_shift (int (length ms)) sel)"
  by (simp_all add: example_ext_no_span_def example_ext_def)

lemma example_tr_fields:
  "doc example_tr = ''abc''"
  "steps example_tr = []"
  "mapping_maps example_tr = []"
  "curSelection example_tr = Text_sel 1 2"
  "curSelectionFor example_tr = 0"
  "storedMarks example_tr = Some [''em'']"
  "updated example_tr = 0"
  by (simp_all add: example_tr_def Transaction_def example_state_def)

subsection \<open>The selection getter\<close>

text \<open>
  C1. The selection getter corrects its cache lazily. When \<open>curSelectionFor\<close> is below
  \<open>steps.length\<close>, it returns the cached selection mapped through the current document
  and the step maps from index \<open>curSelectionFor\<close> on, stores that result as the cached
  selection and sets \<open>curSelectionFor\<close> to \<open>steps.length\<close>, changing nothing else. When
  \<open>curSelectionFor\<close> equals \<open>steps.length\<close>, it returns the cached selection and leaves
  the transaction as it is.
\<close>

theorem selection_lazy_remap:
  "(curSelectionFor tr < length (steps tr) \<longrightarrow>
      fst (selection E tr) =
        Selection_map E (curSelection tr) (doc tr) (drop (curSelectionFor tr) (mapping_maps tr))
      \<and> snd (selection E tr) =
          tr\<lparr>curSelection := fst (selection E tr), curSelectionFor := length (steps tr)\<rparr>)
   \<and> (curSelectionFor tr = length (steps tr) \<longrightarrow> selection E tr = (curSelection tr, tr))"
  by (simp add: selection_def Let_def)

theorem selection_lazy_remap_witness:
  "curSelectionFor example_tr_one_step < length (steps example_tr_one_step)
   \<and> selection example_ext example_tr_one_step =
       (Text_sel 2 3, example_tr_one_step\<lparr>curSelection := Text_sel 2 3, curSelectionFor := 1\<rparr>)
   \<and> curSelectionFor example_tr = length (steps example_tr)
   \<and> selection example_ext example_tr = (Text_sel 1 2, example_tr)"
proof -
  have a: "curSelectionFor example_tr_one_step < length (steps example_tr_one_step)"
    by (simp add: example_tr_one_step_def example_tr_def Transaction_def addStep_def
        Transform_addStep_def Let_def)
  have b: "curSelectionFor example_tr = length (steps example_tr)"
    by (simp add: example_tr_def Transaction_def)
  have m: "Selection_map example_ext (curSelection example_tr_one_step) (doc example_tr_one_step)
             (drop (curSelectionFor example_tr_one_step) (mapping_maps example_tr_one_step))
           = Text_sel 2 3"
    by (simp add: example_tr_one_step_def example_tr_def Transaction_def addStep_def
        Transform_addStep_def Let_def example_ext_def example_state_def)
  have l: "length (steps example_tr_one_step) = 1"
    by (simp add: example_tr_one_step_def example_tr_def Transaction_def addStep_def
        Transform_addStep_def Let_def)
  have c: "curSelection example_tr = Text_sel 1 2"
    by (simp add: example_tr_def Transaction_def example_state_def)
  from selection_lazy_remap [of example_tr_one_step example_ext] a m l
  have "selection example_ext example_tr_one_step =
       (Text_sel 2 3, example_tr_one_step\<lparr>curSelection := Text_sel 2 3, curSelectionFor := 1\<rparr>)"
    by (simp add: prod_eq_iff)
  moreover from selection_lazy_remap [of example_tr example_ext] b c
  have "selection example_ext example_tr = (Text_sel 1 2, example_tr)"
    by simp
  ultimately show ?thesis using a b by simp
qed

text \<open>
  C7. Reading the selection of a freshly constructed transaction returns the selection of
  the editor state it was built from, and, more generally, a transaction whose step list
  is empty returns its cached selection as it is; the transaction is not changed by the
  read. For every transaction, a second read right after a first one returns the value of
  the first and leaves the transaction as the first read left it, and it takes the branch
  of the getter that does no mapping.
\<close>

theorem selection_base_and_reread:
  "selection E (Transaction st now) = (state_selection st, Transaction st now)
   \<and> (steps tr = [] \<longrightarrow> selection E tr = (curSelection tr, tr))
   \<and> selection E (snd (selection E tr)) = (fst (selection E tr), snd (selection E tr))
   \<and> \<not> curSelectionFor (snd (selection E tr)) < length (steps (snd (selection E tr)))"
  by (simp add: selection_def Transaction_def Let_def)

theorem selection_base_and_reread_witness:
  "steps example_tr_no_marks = []
   \<and> selection example_ext example_tr_no_marks = (Text_sel 1 2, example_tr_no_marks)"
proof -
  have none: "steps example_tr_no_marks = []"
    by (simp add: example_tr_no_marks_def example_tr_fields)
  have cur: "curSelection example_tr_no_marks = Text_sel 1 2"
    by (simp add: example_tr_no_marks_def example_tr_fields)
  note read = selection_base_and_reread [where E = example_ext and tr = example_tr_no_marks,
      THEN conjunct2, THEN conjunct1, rule_format, OF none]
  from none read cur show ?thesis by simp
qed

subsection \<open>Setting the selection\<close>

text \<open>
  C5. \<open>setSelection(s)\<close> returns the transaction itself, changed in four fields only:
  the cached selection is \<open>s\<close>, \<open>curSelectionFor\<close> is the transaction's \<open>steps.length\<close>,
  \<open>storedMarks\<close> is \<open>null\<close>, and in \<open>updated\<close> the selection bit is set, the marks bit
  is cleared and every other bit is as before. So afterwards \<open>selectionSet\<close> is true,
  \<open>storedMarksSet\<close> is false, \<open>scrolledIntoView\<close> is as before, the document, the steps,
  the maps, the time and the metadata are as before, and reading the selection returns
  \<open>s\<close> without mapping and without changing the transaction.
\<close>

theorem setSelection_effect:
  "setSelection tr s =
     tr\<lparr>curSelection := s, curSelectionFor := length (steps tr), storedMarks := None,
        updated := updated (setSelection tr s)\<rparr>
   \<and> updated (setSelection tr s) AND NOT (UPDATED_SEL OR UPDATED_MARKS) =
       updated tr AND NOT (UPDATED_SEL OR UPDATED_MARKS)
   \<and> selectionSet (setSelection tr s)
   \<and> \<not> storedMarksSet (setSelection tr s)
   \<and> scrolledIntoView (setSelection tr s) = scrolledIntoView tr
   \<and> storedMarks (setSelection tr s) = None
   \<and> curSelection (setSelection tr s) = s
   \<and> curSelectionFor (setSelection tr s) = length (steps tr)
   \<and> steps (setSelection tr s) = steps tr
   \<and> mapping_maps (setSelection tr s) = mapping_maps tr
   \<and> doc (setSelection tr s) = doc tr
   \<and> docs (setSelection tr s) = docs tr
   \<and> time (setSelection tr s) = time tr
   \<and> meta (setSelection tr s) = meta tr
   \<and> selection E (setSelection tr s) = (s, setSelection tr s)"
proof -
  have same: "setSelection tr s =
     tr\<lparr>curSelection := s, curSelectionFor := length (steps tr), storedMarks := None,
        updated := updated (setSelection tr s)\<rparr>"
    by (simp add: setSelection_def)
  have u: "updated (setSelection tr s) = (updated tr OR UPDATED_SEL) AND NOT UPDATED_MARKS"
    by (simp add: setSelection_def)
  have others: "updated (setSelection tr s) AND NOT (UPDATED_SEL OR UPDATED_MARKS) =
       updated tr AND NOT (UPDATED_SEL OR UPDATED_MARKS)"
    unfolding u by (rule other_bits_setSelection)
  have flags: "selectionSet (setSelection tr s)
     \<and> \<not> storedMarksSet (setSelection tr s)
     \<and> scrolledIntoView (setSelection tr s) = scrolledIntoView tr"
    by (simp add: selectionSet_def storedMarksSet_def scrolledIntoView_def u
        sel_bit marks_bit_sel scroll_bit_setSelection)
  have fields: "storedMarks (setSelection tr s) = None
     \<and> curSelection (setSelection tr s) = s
     \<and> curSelectionFor (setSelection tr s) = length (steps tr)
     \<and> steps (setSelection tr s) = steps tr
     \<and> mapping_maps (setSelection tr s) = mapping_maps tr
     \<and> doc (setSelection tr s) = doc tr
     \<and> docs (setSelection tr s) = docs tr
     \<and> time (setSelection tr s) = time tr
     \<and> meta (setSelection tr s) = meta tr"
    by (simp add: setSelection_def)
  have read: "selection E (setSelection tr s) = (s, setSelection tr s)"
    by (simp add: selection_def setSelection_def)
  from same others flags fields read show ?thesis by blast
qed

subsection \<open>Appending steps\<close>

text \<open>
  C4. Right after a step is appended by \<open>addStep\<close>, \<open>storedMarksSet\<close> is false and
  \<open>storedMarks\<close> is \<open>null\<close>, whatever they were before; the same holds after an
  inherited operation has appended its steps, since the last of them went through
  \<open>addStep\<close>, whether the operation then returns or throws.
\<close>

theorem addStep_clears_stored_marks:
  "\<not> storedMarksSet (addStep E tr step d)
   \<and> storedMarks (addStep E tr step d) = None
   \<and> \<not> storedMarksSet (addSteps E tr (ps @ [(step, d)]))
   \<and> storedMarks (addSteps E tr (ps @ [(step, d)])) = None
   \<and> \<not> storedMarksSet (after (inherited E tr (ps @ [(step, d)], err)))
   \<and> storedMarks (after (inherited E tr (ps @ [(step, d)], err))) = None"
proof -
  have one: "\<And>t. \<not> storedMarksSet (addStep E t step d) \<and> storedMarks (addStep E t step d) = None"
    by (simp add: storedMarksSet_def addStep_def Transform_addStep_def marks_bit Let_def)
  have snoc: "\<And>t. addSteps E t (ps @ [(step, d)]) = addStep E (addSteps E t ps) step d"
    by (induction ps) auto
  have inh: "after (inherited E tr (ps @ [(step, d)], err)) = addSteps E tr (ps @ [(step, d)])"
    by (cases err) (simp_all add: inherited_def)
  show ?thesis using one [of tr] one [of "addSteps E tr ps"] by (simp add: snoc inh)
qed

subsection \<open>The invariant of the selection cache\<close>

lemma cache_ok_selection: "cache_ok tr \<Longrightarrow> cache_ok (snd (selection E tr))"
  by (simp add: cache_ok_def selection_def Let_def)

lemma cache_ok_setSelection: "cache_ok (setSelection tr s)"
  by (simp add: cache_ok_def setSelection_def)

lemma cache_ok_addStep: "cache_ok tr \<Longrightarrow> cache_ok (addStep E tr step d)"
  by (simp add: cache_ok_def addStep_def Transform_addStep_def Let_def)

lemma cache_ok_addSteps: "cache_ok tr \<Longrightarrow> cache_ok (addSteps E tr ps)"
  by (induction ps arbitrary: tr) (auto simp: cache_ok_addStep)

lemma cache_ok_inherited: "cache_ok tr \<Longrightarrow> cache_ok (after (inherited E tr r))"
  by (simp add: inherited_def Let_def cache_ok_addSteps split: option.splits)

lemma cache_ok_placement:
  "cache_ok tr \<Longrightarrow> cache_ok (after (selectionToInsertionEnd E tr startLen bias))"
  by (simp add: selectionToInsertionEnd_def Let_def cache_ok_setSelection split: option.splits)

lemma cache_ok_replaceSelection:
  assumes "cache_ok tr" shows "cache_ok (after (replaceSelection E tr slc))"
proof -
  obtain sel tr1 where s: "selection E tr = (sel, tr1)" by (cases "selection E tr")
  with assms cache_ok_selection [of tr E] have ok1: "cache_ok tr1" by simp
  let ?r = "replaceRange E tr1 (Selection_from E sel) (Selection_to E sel) slc"
  have ok2: "cache_ok (after ?r)"
    using ok1 by (simp add: replaceRange_def cache_ok_inherited)
  show ?thesis
  proof (cases ?r)
    case (Inl x)
    with ok2 show ?thesis by (simp add: replaceSelection_def s)
  next
    case (Inr tr2)
    with ok2 have ok: "cache_ok tr2" by simp
    show ?thesis
    proof (cases "replaceSelection_bias E slc")
      case (Inl e)
      with Inr ok show ?thesis by (simp add: replaceSelection_def s)
    next
      case b: (Inr bias)
      with Inr cache_ok_placement [OF ok] show ?thesis by (simp add: replaceSelection_def s)
    qed
  qed
qed

lemma cache_ok_replaceSelectionWith:
  assumes "cache_ok tr" shows "cache_ok (after (replaceSelectionWith E tr node im))"
proof -
  obtain sel tr1 where s: "selection E tr = (sel, tr1)" by (cases "selection E tr")
  with assms cache_ok_selection [of tr E] have ok1: "cache_ok tr1" by simp
  define node1 where "node1 = (if im \<noteq> Some False then
                     Node_mark E node
                       (case storedMarks tr1 of
                          Some ms \<Rightarrow> ms
                        | None \<Rightarrow> ResolvedPos_marks E (Selection_rfrom E sel)
                                    (Selection_to E sel > Selection_from E sel))
                   else node)"
  let ?r = "replaceRangeWith E tr1 (Selection_from E sel) (Some (Selection_to E sel)) node1"
  have ok2: "cache_ok (after ?r)"
    using ok1 by (simp add: replaceRangeWith_def cache_ok_inherited)
  show ?thesis
  proof (cases ?r)
    case (Inl x)
    with ok2 show ?thesis by (simp add: replaceSelectionWith_def s node1_def)
  next
    case (Inr tr2)
    with ok2 have ok: "cache_ok tr2" by simp
    from Inr show ?thesis
      by (simp add: replaceSelectionWith_def s node1_def cache_ok_placement [OF ok])
  qed
qed

lemma cache_ok_deleteSelection:
  assumes "cache_ok tr" shows "cache_ok (after (deleteSelection E tr))"
proof -
  obtain sel tr1 where s: "selection E tr = (sel, tr1)" by (cases "selection E tr")
  with assms cache_ok_selection [of tr E] have ok1: "cache_ok tr1" by simp
  then show ?thesis by (simp add: deleteSelection_def s deleteRange_def cache_ok_inherited)
qed

lemma cache_ok_insertText:
  assumes "cache_ok tr" shows "cache_ok (after (insertText E tr text from to))"
  using assms
  by (simp add: insertText_def Let_def cache_ok_deleteSelection cache_ok_replaceSelectionWith
      deleteRange_def replaceRangeWith_def cache_ok_inherited split: option.splits)

lemma cache_ok_setMeta: "cache_ok tr \<Longrightarrow> cache_ok (after (setMeta tr key v))"
  by (simp add: setMeta_def cache_ok_def split: option.splits)

lemma cache_ok_storedMarks_or_current:
  "cache_ok tr \<Longrightarrow> cache_ok (snd (storedMarks_or_current E tr))"
  using cache_ok_selection [of tr E]
  by (auto simp: storedMarks_or_current_def split: option.splits prod.splits)

lemma cache_ok_addStoredMark: "cache_ok tr \<Longrightarrow> cache_ok (addStoredMark E tr mark)"
  using cache_ok_storedMarks_or_current [of tr E]
  by (cases "storedMarks_or_current E tr") (simp add: addStoredMark_def cache_ok_def)

lemma cache_ok_removeStoredMark: "cache_ok tr \<Longrightarrow> cache_ok (removeStoredMark E tr mark)"
  using cache_ok_storedMarks_or_current [of tr E]
  by (cases "storedMarks_or_current E tr") (simp add: removeStoredMark_def cache_ok_def)

lemma cache_ok_perform: "cache_ok tr \<Longrightarrow> cache_ok (after (perform E tr c))"
proof (cases c)
  case Call_selection
  then show "cache_ok tr \<Longrightarrow> ?thesis" by (simp add: cache_ok_selection)
next
  case (Call_setStoredMarks x3)
  then show "cache_ok tr \<Longrightarrow> ?thesis" by (simp add: setStoredMarks_def cache_ok_def)
next
  case (Call_setTime x6)
  then show "cache_ok tr \<Longrightarrow> ?thesis" by (simp add: setTime_def cache_ok_def)
next
  case Call_scrollIntoView
  then show "cache_ok tr \<Longrightarrow> ?thesis" by (simp add: scrollIntoView_def cache_ok_def)
qed (simp_all add: cache_ok_setSelection cache_ok_addStep cache_ok_inherited
      cache_ok_replaceSelection cache_ok_replaceSelectionWith cache_ok_deleteSelection
      cache_ok_insertText cache_ok_setMeta cache_ok_addStoredMark cache_ok_removeStoredMark)

lemma cache_ok_run: "cache_ok tr \<Longrightarrow> cache_ok (run E tr cs)"
  by (induction cs arbitrary: tr) (auto simp: cache_ok_perform)

text \<open>
  C6. The invariant \<open>0 \<le> curSelectionFor \<le> steps.length\<close> holds for a freshly
  constructed transaction, and every call keeps it, whether the call returns or throws:
  reading the selection, \<open>setSelection\<close>, \<open>addStep\<close>, any inherited operation (which
  appends steps through \<open>addStep\<close>) and every other method of the class. So it holds
  after any sequence of calls on a fresh transaction.
\<close>

theorem cache_invariant:
  "cache_ok (Transaction st now)
   \<and> (cache_ok tr \<longrightarrow> cache_ok (after (perform E tr c)))
   \<and> cache_ok (run E (Transaction st now) cs)"
proof -
  have fresh: "\<And>st now. cache_ok (Transaction st now)"
    by (simp add: cache_ok_def Transaction_def)
  have step: "cache_ok tr \<longrightarrow> cache_ok (after (perform E tr c))"
    by (simp add: cache_ok_perform)
  have reach: "cache_ok (run E (Transaction st now) cs)"
    by (rule cache_ok_run [OF fresh])
  from fresh step reach show ?thesis by simp
qed

theorem cache_invariant_witness:
  "cache_ok example_tr_one_step
   \<and> cache_ok (after (perform example_ext example_tr_one_step
                        (Call_replaceSelection ([example_paragraph], 1))))"
proof -
  have ok: "cache_ok example_tr_one_step"
    by (simp add: cache_ok_def example_tr_one_step_def example_tr_def Transaction_def
        addStep_def Transform_addStep_def Let_def)
  note step = cache_invariant [where tr = example_tr_one_step and E = example_ext
      and c = "Call_replaceSelection ([example_paragraph], 1)", THEN conjunct2, THEN conjunct1]
  from ok step show ?thesis by blast
qed

subsection \<open>Stored marks\<close>

text \<open>
  C8. \<open>addStoredMark\<close> and \<open>removeStoredMark\<close> leave the bitfield \<open>updated\<close>, and so
  \<open>storedMarksSet\<close>, as it was. When \<open>storedMarks\<close> is \<open>null\<close> at the call, the set
  they add to or remove from is the marks at the head of the current selection (the value
  of the selection getter), or the empty set when that selection has no head.
\<close>

theorem stored_mark_adjustments:
  "updated (addStoredMark E tr mark) = updated tr
   \<and> updated (removeStoredMark E tr mot) = updated tr
   \<and> storedMarksSet (addStoredMark E tr mark) = storedMarksSet tr
   \<and> storedMarksSet (removeStoredMark E tr mot) = storedMarksSet tr
   \<and> (storedMarks tr = None \<longrightarrow>
        (let seed = (case Selection_head E (fst (selection E tr)) of
                       None \<Rightarrow> []
                     | Some h \<Rightarrow>
                         ResolvedPos_marks E (Selection_rhead E (fst (selection E tr))) False)
         in storedMarks (addStoredMark E tr mark) = Some (Mark_addToSet E mark seed)
            \<and> storedMarks (removeStoredMark E tr (IsMark m)) = Some (Mark_removeFromSet E m seed)
            \<and> storedMarks (removeStoredMark E tr (IsMarkType t)) =
                Some (MarkType_removeFromSet E t seed)))"
proof -
  have u: "updated (snd (storedMarks_or_current E tr)) = updated tr"
    by (simp add: storedMarks_or_current_def selection_def Let_def split: option.splits)
  have a: "updated (addStoredMark E tr mark) = updated tr"
    using u by (cases "storedMarks_or_current E tr") (simp add: addStoredMark_def)
  have r: "updated (removeStoredMark E tr mot) = updated tr"
    using u by (cases "storedMarks_or_current E tr") (simp add: removeStoredMark_def)
  have s: "storedMarks tr = None \<Longrightarrow>
           fst (storedMarks_or_current E tr) =
             (case Selection_head E (fst (selection E tr)) of
                None \<Rightarrow> []
              | Some h \<Rightarrow> ResolvedPos_marks E (Selection_rhead E (fst (selection E tr))) False)"
    by (cases "selection E tr")
      (simp add: storedMarks_or_current_def currentMarks_def split: option.splits)
  have seeded: "storedMarks tr = None \<longrightarrow>
        (let seed = (case Selection_head E (fst (selection E tr)) of
                       None \<Rightarrow> []
                     | Some h \<Rightarrow>
                         ResolvedPos_marks E (Selection_rhead E (fst (selection E tr))) False)
         in storedMarks (addStoredMark E tr mark) = Some (Mark_addToSet E mark seed)
            \<and> storedMarks (removeStoredMark E tr (IsMark m)) = Some (Mark_removeFromSet E m seed)
            \<and> storedMarks (removeStoredMark E tr (IsMarkType t)) =
                Some (MarkType_removeFromSet E t seed))"
    using s by (cases "storedMarks_or_current E tr")
      (simp add: addStoredMark_def removeStoredMark_def Let_def)
  from a r seeded show ?thesis by (simp add: storedMarksSet_def)
qed

theorem stored_mark_adjustments_witness:
  "storedMarks example_tr_no_marks = None
   \<and> Selection_head example_ext (fst (selection example_ext example_tr_no_marks)) = Some 2
   \<and> storedMarks (addStoredMark example_ext example_tr_no_marks ''em'') = Some [''strong'', ''em'']
   \<and> storedMarks (removeStoredMark example_ext example_tr_no_marks (IsMark ''strong'')) = Some []
   \<and> storedMarks example_tr_node_sel = None
   \<and> Selection_head example_ext (fst (selection example_ext example_tr_node_sel)) = None
   \<and> storedMarks (addStoredMark example_ext example_tr_node_sel ''em'') = Some [''em'']
   \<and> storedMarks (removeStoredMark example_ext example_tr_node_sel (IsMarkType ''em'')) = Some []"
proof -
  have n1: "storedMarks example_tr_no_marks = None"
    by (simp add: example_tr_no_marks_def)
  have n2: "storedMarks example_tr_node_sel = None"
    by (simp add: example_tr_node_sel_def)
  have s1: "fst (selection example_ext example_tr_no_marks) = Text_sel 1 2"
    by (simp add: example_tr_no_marks_def example_tr_def Transaction_def selection_def
        example_state_def)
  have s2: "fst (selection example_ext example_tr_node_sel) = Node_sel 1"
    by (simp add: example_tr_node_sel_def example_tr_def Transaction_def selection_def
        example_state_def)
  note t1 = stored_mark_adjustments [where E = example_ext and tr = example_tr_no_marks
      and mark = "''em''" and m = "''strong''" and t = "''em''", THEN conjunct2, THEN conjunct2,
      THEN conjunct2, THEN conjunct2, rule_format, OF n1]
  note t2 = stored_mark_adjustments [where E = example_ext and tr = example_tr_node_sel
      and mark = "''em''" and m = "''strong''" and t = "''em''", THEN conjunct2, THEN conjunct2,
      THEN conjunct2, THEN conjunct2, rule_format, OF n2]
  from t1 have "storedMarks (addStoredMark example_ext example_tr_no_marks ''em'') = Some [''strong'', ''em'']
    \<and> storedMarks (removeStoredMark example_ext example_tr_no_marks (IsMark ''strong'')) = Some []"
    by (simp add: s1 Let_def example_ext_fields)
  moreover from t2 have "storedMarks (addStoredMark example_ext example_tr_node_sel ''em'') = Some [''em'']
    \<and> storedMarks (removeStoredMark example_ext example_tr_node_sel (IsMarkType ''em'')) = Some []"
    by (simp add: s2 Let_def example_ext_fields)
  ultimately show ?thesis using n1 n2 by (simp add: s1 s2 example_ext_fields)
qed

subsection \<open>Metadata keys\<close>

text \<open>
  C9, as stated, fails: the key \<open>{}\<close> is not a string and has no \<open>key\<close> property, yet
  \<open>setMeta\<close> returns normally and stores the value under the property \<open>undefined\<close>.
\<close>

theorem setMeta_unresolvable_key_counterexample:
  "\<not> resolvable_key (JObject [])
   \<and> setMeta example_tr (JObject []) 7 = Inr (example_tr\<lparr>meta := [(''undefined'', 7)]\<rparr>)"
  by (simp add: setMeta_def meta_key_def example_tr_def Transaction_def)

text \<open>
  C9, amended. \<open>setMeta(key, value)\<close> throws a \<open>TypeError\<close>, leaving the transaction with
  its metadata as before the call, when \<open>key\<close> is \<open>null\<close> or \<open>undefined\<close> (the read of
  \<open>key.key\<close> throws), and when \<open>key.key\<close> is an object that does not convert to a
  property name (here: one with an own \<open>toString\<close> property, which is not callable). In
  every other case it returns normally and stores the value under one property name: the
  key itself when it is a string; otherwise the name \<open>key.key\<close> converts to, which is
  \<open>undefined\<close> when the key has no \<open>key\<close> property (or that property is
  \<open>undefined\<close>), the string itself for a string, \<open>null\<close>, \<open>true\<close> or \<open>false\<close> for those
  values, and \<open>[object Object]\<close> for an object without an own \<open>toString\<close>. Among the
  values of \<open>jsval\<close> the call throws in no other case.
\<close>

theorem setMeta_key_handling:
  "setMeta tr JNull v = Inl (TypeError, tr)
   \<and> setMeta tr JUndefined v = Inl (TypeError, tr)
   \<and> setMeta tr (JString s) v = Inr (tr\<lparr>meta := AList.update s v (meta tr)\<rparr>)
   \<and> setMeta tr (JBool b) v = Inr (tr\<lparr>meta := AList.update ''undefined'' v (meta tr)\<rparr>)
   \<and> (map_of props ''key'' = None \<or> map_of props ''key'' = Some JUndefined \<longrightarrow>
        setMeta tr (JObject props) v = Inr (tr\<lparr>meta := AList.update ''undefined'' v (meta tr)\<rparr>))
   \<and> (map_of props ''key'' = Some (JString s) \<longrightarrow>
        setMeta tr (JObject props) v = Inr (tr\<lparr>meta := AList.update s v (meta tr)\<rparr>))
   \<and> (map_of props ''key'' = Some JNull \<longrightarrow>
        setMeta tr (JObject props) v = Inr (tr\<lparr>meta := AList.update ''null'' v (meta tr)\<rparr>))
   \<and> (map_of props ''key'' = Some (JBool b) \<longrightarrow>
        setMeta tr (JObject props) v =
          Inr (tr\<lparr>meta := AList.update (if b then ''true'' else ''false'') v (meta tr)\<rparr>))
   \<and> (map_of props ''key'' = Some (JObject inner) \<and> map_of inner ''toString'' = None \<longrightarrow>
        setMeta tr (JObject props) v =
          Inr (tr\<lparr>meta := AList.update ''[object Object]'' v (meta tr)\<rparr>))
   \<and> (map_of props ''key'' = Some (JObject inner) \<and> map_of inner ''toString'' \<noteq> None \<longrightarrow>
        setMeta tr (JObject props) v = Inl (TypeError, tr))
   \<and> ((\<exists>e tr'. setMeta tr key v = Inl (e, tr')) \<longleftrightarrow>
        key = JNull \<or> key = JUndefined
        \<or> (\<exists>ps inner. key = JObject ps \<and> map_of ps ''key'' = Some (JObject inner)
              \<and> map_of inner ''toString'' \<noteq> None))
   \<and> (setMeta tr key v = Inl (e, tr') \<longrightarrow> e = TypeError \<and> tr' = tr)"
proof -
  have prim: "setMeta tr JNull v = Inl (TypeError, tr)
     \<and> setMeta tr JUndefined v = Inl (TypeError, tr)
     \<and> setMeta tr (JString s) v = Inr (tr\<lparr>meta := AList.update s v (meta tr)\<rparr>)
     \<and> setMeta tr (JBool b) v = Inr (tr\<lparr>meta := AList.update ''undefined'' v (meta tr)\<rparr>)"
    by (simp add: setMeta_def meta_key_def)
  have obj: "setMeta tr (JObject props) v =
      (case map_of props ''key'' of
         None \<Rightarrow> Inr (tr\<lparr>meta := AList.update ''undefined'' v (meta tr)\<rparr>)
       | Some k \<Rightarrow>
           (case to_property_key k of
              None \<Rightarrow> Inl (TypeError, tr)
            | Some name \<Rightarrow> Inr (tr\<lparr>meta := AList.update name v (meta tr)\<rparr>)))" for props
    by (simp add: setMeta_def meta_key_def split: option.splits)
  have conv: "to_property_key k = None \<longleftrightarrow>
      (\<exists>inner. k = JObject inner \<and> map_of inner ''toString'' \<noteq> None)" for k
    by (cases k) (auto split: option.splits)
  have throws: "(\<exists>e tr'. setMeta tr key v = Inl (e, tr')) \<longleftrightarrow>
        key = JNull \<or> key = JUndefined
        \<or> (\<exists>ps inner. key = JObject ps \<and> map_of ps ''key'' = Some (JObject inner)
              \<and> map_of inner ''toString'' \<noteq> None)"
  proof (cases key)
    case (JObject ps)
    show ?thesis
    proof (cases "map_of ps ''key''")
      case None
      with JObject show ?thesis by (simp add: obj)
    next
      case (Some k)
      with JObject conv [of k] show ?thesis by (cases "to_property_key k") (auto simp: obj)
    qed
  qed (simp_all add: setMeta_def meta_key_def)
  have unchanged: "setMeta tr key v = Inl (e, tr') \<longrightarrow> e = TypeError \<and> tr' = tr"
    by (auto simp: setMeta_def split: option.splits)
  from prim throws unchanged show ?thesis by (auto simp: obj)
qed

theorem setMeta_key_handling_witness:
  "setMeta example_tr JNull 7 = Inl (TypeError, example_tr)
   \<and> setMeta example_tr (JObject []) 7 =
       Inr (example_tr\<lparr>meta := [(''undefined'', 7)]\<rparr>)
   \<and> setMeta example_tr (JObject [(''key'', JString ''plugin$'')]) 7 =
       Inr (example_tr\<lparr>meta := [(''plugin$'', 7)]\<rparr>)
   \<and> setMeta example_tr (JObject [(''key'', JNull)]) 7 =
       Inr (example_tr\<lparr>meta := [(''null'', 7)]\<rparr>)
   \<and> setMeta example_tr (JObject [(''key'', JBool True)]) 7 =
       Inr (example_tr\<lparr>meta := [(''true'', 7)]\<rparr>)
   \<and> setMeta example_tr (JObject [(''key'', JObject [])]) 7 =
       Inr (example_tr\<lparr>meta := [(''[object Object]'', 7)]\<rparr>)
   \<and> setMeta example_tr (JObject [(''key'', JObject [(''toString'', JString ''abc'')])]) 7 =
       Inl (TypeError, example_tr)"
proof -
  have m: "meta example_tr = []"
    by (simp add: example_tr_def Transaction_def)
  note a = setMeta_key_handling [where tr = example_tr and v = 7 and key = JNull
      and props = "[]" and s = "''plugin$''" and b = True and inner = "[]"
      and e = TypeError and tr' = example_tr]
  note b = setMeta_key_handling [where tr = example_tr and v = 7 and key = JNull
      and props = "[(''key'', JString ''plugin$'')]" and s = "''plugin$''" and b = True
      and inner = "[]" and e = TypeError and tr' = example_tr]
  note c = setMeta_key_handling [where tr = example_tr and v = 7 and key = JNull
      and props = "[(''key'', JNull)]" and s = "''plugin$''" and b = True
      and inner = "[]" and e = TypeError and tr' = example_tr]
  note d = setMeta_key_handling [where tr = example_tr and v = 7 and key = JNull
      and props = "[(''key'', JBool True)]" and s = "''plugin$''" and b = True
      and inner = "[]" and e = TypeError and tr' = example_tr]
  note f = setMeta_key_handling [where tr = example_tr and v = 7 and key = JNull
      and props = "[(''key'', JObject [])]" and s = "''plugin$''" and b = True
      and inner = "[]" and e = TypeError and tr' = example_tr]
  note g = setMeta_key_handling [where tr = example_tr and v = 7 and key = JNull
      and props = "[(''key'', JObject [(''toString'', JString ''abc'')])]"
      and s = "''plugin$''" and b = True
      and inner = "[(''toString'', JString ''abc'')]" and e = TypeError and tr' = example_tr]
  have 1: "setMeta example_tr JNull (7::nat) = Inl (TypeError, example_tr)"
    using a by blast
  have 2: "setMeta example_tr (JObject []) (7::nat) =
       Inr (example_tr\<lparr>meta := [(''undefined'', 7)]\<rparr>)"
    using a by (simp add: m)
  have 3: "setMeta example_tr (JObject [(''key'', JString ''plugin$'')]) (7::nat) =
       Inr (example_tr\<lparr>meta := [(''plugin$'', 7)]\<rparr>)"
    using b by (simp add: m)
  have 4: "setMeta example_tr (JObject [(''key'', JNull)]) (7::nat) =
       Inr (example_tr\<lparr>meta := [(''null'', 7)]\<rparr>)"
    using c by (simp add: m)
  have 5: "setMeta example_tr (JObject [(''key'', JBool True)]) (7::nat) =
       Inr (example_tr\<lparr>meta := [(''true'', 7)]\<rparr>)"
    using d by (simp add: m)
  have 6: "setMeta example_tr (JObject [(''key'', JObject [])]) (7::nat) =
       Inr (example_tr\<lparr>meta := [(''[object Object]'', 7)]\<rparr>)"
    using f by (simp add: m)
  have 7: "setMeta example_tr (JObject [(''key'', JObject [(''toString'', JString ''abc'')])])
             (7::nat) = Inl (TypeError, example_tr)"
    using g by simp
  from 1 2 3 4 5 6 7 show ?thesis by blast
qed

subsection \<open>The bias of replaceSelection\<close>

lemma descend_rightmost:
  "descend E (Suc k) lastNode lastParent =
     (case rightmost E k lastNode of
        None \<Rightarrow> None
      | Some p \<Rightarrow> Some (Node_lastChild E p, Some p))"
proof (induction k arbitrary: lastNode lastParent)
  case 0
  show ?case by (cases lastNode) simp_all
next
  case (Suc k)
  show ?case
  proof (cases lastNode)
    case None
    then show ?thesis by simp
  next
    case (Some nd)
    then show ?thesis using Suc.IH [of "Node_lastChild E nd" "Some nd"] by simp
  qed
qed

text \<open>
  C2, as stated, fails in both directions. For a slice that is one paragraph with
  \<open>openRight = 0\<close> there is no descent and the last top-level node is a textblock, yet
  the bias is forward. For a slice that is one empty paragraph with \<open>openRight = 1\<close> the
  descent finds no node, so no inline node, and there was a descent, yet the bias is
  backward.
\<close>

theorem replaceSelection_bias_counterexample:
  "replaceSelection_bias example_ext ([example_paragraph], 0) = Inr 1
   \<and> spec_bias example_ext ([example_paragraph], 0) = - 1
   \<and> replaceSelection_bias example_ext ([example_empty_paragraph], 1) = Inr (- 1)
   \<and> spec_bias example_ext ([example_empty_paragraph], 1) = 1"
  by (simp add: replaceSelection_bias_def spec_bias_def example_ext_fields last_of_def
      example_paragraph_def example_empty_paragraph_def example_text_def)

text \<open>
  C2, amended. With \<open>openRight = 0\<close> the bias is backward exactly when the last
  top-level node of the slice exists and is inline. With \<open>openRight = k + 1\<close>, let \<open>p\<close>
  be the node reached from the last top-level node by going to the last child \<open>k\<close> times:
  the bias is backward when the last child of \<open>p\<close> exists and is inline, or when \<open>p\<close>
  has no last child and \<open>p\<close> is a textblock; it is forward otherwise; and when there is
  no such \<open>p\<close> the loop throws a \<open>TypeError\<close>. The bias so computed is the one
  \<open>replaceSelection\<close> passes on, after the range replacement, with the step count read
  before it.
\<close>

theorem replaceSelection_bias_by_descent:
  "(Slice_openRight E slc = 0 \<longrightarrow>
      replaceSelection_bias E slc =
        Inr (if (case Slice_lastChild E slc of Some nd \<Rightarrow> Node_isInline E nd | None \<Rightarrow> False)
             then - 1 else 1))
   \<and> (Slice_openRight E slc = Suc k \<longrightarrow>
        replaceSelection_bias E slc =
          (case rightmost E k (Slice_lastChild E slc) of
             None \<Rightarrow> Inl TypeError
           | Some p \<Rightarrow>
               Inr (if (case Node_lastChild E p of
                          Some nd \<Rightarrow> Node_isInline E nd
                        | None \<Rightarrow> Node_isTextblock E p)
                    then - 1 else 1)))
   \<and> (selection E tr = (sel, tr1)
        \<and> replaceRange E tr1 (Selection_from E sel) (Selection_to E sel) slc = Inr tr2
        \<and> replaceSelection_bias E slc = Inr bias \<longrightarrow>
        replaceSelection E tr slc = selectionToInsertionEnd E tr2 (length (steps tr1)) bias)"
proof -
  have zero: "Slice_openRight E slc = 0 \<longrightarrow>
      replaceSelection_bias E slc =
        Inr (if (case Slice_lastChild E slc of Some nd \<Rightarrow> Node_isInline E nd | None \<Rightarrow> False)
             then - 1 else 1)"
    by (simp add: replaceSelection_bias_def split: option.splits)
  have pos: "Slice_openRight E slc = Suc k \<longrightarrow>
        replaceSelection_bias E slc =
          (case rightmost E k (Slice_lastChild E slc) of
             None \<Rightarrow> Inl TypeError
           | Some p \<Rightarrow>
               Inr (if (case Node_lastChild E p of
                          Some nd \<Rightarrow> Node_isInline E nd
                        | None \<Rightarrow> Node_isTextblock E p)
                    then - 1 else 1))"
    by (simp add: replaceSelection_bias_def descend_rightmost del: descend.simps
        split: option.splits)
  have call: "selection E tr = (sel, tr1)
        \<and> replaceRange E tr1 (Selection_from E sel) (Selection_to E sel) slc = Inr tr2
        \<and> replaceSelection_bias E slc = Inr bias \<longrightarrow>
        replaceSelection E tr slc = selectionToInsertionEnd E tr2 (length (steps tr1)) bias"
    by (simp add: replaceSelection_def)
  from zero pos call show ?thesis by simp
qed

theorem replaceSelection_bias_by_descent_witness:
  "Slice_openRight example_ext ([example_paragraph], 0) = 0
   \<and> replaceSelection_bias example_ext ([example_paragraph], 0) = Inr 1
   \<and> Slice_openRight example_ext ([example_blockquote], 2) = Suc 1
   \<and> rightmost example_ext 1 (Slice_lastChild example_ext ([example_blockquote], 2))
        = Some example_empty_paragraph
   \<and> replaceSelection_bias example_ext ([example_blockquote], 2) = Inr (- 1)
   \<and> Slice_openRight example_ext ([example_empty_paragraph], 2) = Suc 1
   \<and> replaceSelection_bias example_ext ([example_empty_paragraph], 2) = Inl TypeError
   \<and> selection example_ext example_tr = (Text_sel 1 2, example_tr)
   \<and> replaceRange example_ext example_tr 1 2 ([example_paragraph], 0) =
       Inr (addStep example_ext example_tr [(1, 2, 1, 2)] ''abcr'')
   \<and> replaceSelection example_ext example_tr ([example_paragraph], 0) =
       selectionToInsertionEnd example_ext
         (addStep example_ext example_tr [(1, 2, 1, 2)] ''abcr'') 0 1"
proof -
  note z = replaceSelection_bias_by_descent [where E = example_ext
      and slc = "([example_paragraph], 0)", THEN conjunct1]
  note p = replaceSelection_bias_by_descent [where E = example_ext
      and slc = "([example_blockquote], 2)" and k = 1, THEN conjunct2, THEN conjunct1]
  note q = replaceSelection_bias_by_descent [where E = example_ext
      and slc = "([example_empty_paragraph], 2)" and k = 1, THEN conjunct2, THEN conjunct1]
  have r: "rightmost example_ext 1 (Slice_lastChild example_ext ([example_blockquote], 2))
        = Some example_empty_paragraph"
    by (simp add: example_ext_fields last_of_def example_blockquote_def)
  have r': "rightmost example_ext 1 (Slice_lastChild example_ext ([example_empty_paragraph], 2))
        = None"
    by (simp add: example_ext_fields last_of_def example_empty_paragraph_def)
  from z have "replaceSelection_bias example_ext ([example_paragraph], 0) = Inr 1"
    by (simp add: example_ext_fields last_of_def example_paragraph_def)
  moreover from p r have "replaceSelection_bias example_ext ([example_blockquote], 2) = Inr (- 1)"
    by (simp add: example_ext_fields last_of_def example_empty_paragraph_def)
  moreover from q r' have "replaceSelection_bias example_ext ([example_empty_paragraph], 2) = Inl TypeError"
    by (simp add: example_ext_fields)
  ultimately have biases:
    "Slice_openRight example_ext ([example_paragraph], 0) = 0
     \<and> replaceSelection_bias example_ext ([example_paragraph], 0) = Inr 1
     \<and> Slice_openRight example_ext ([example_blockquote], 2) = Suc 1
     \<and> rightmost example_ext 1 (Slice_lastChild example_ext ([example_blockquote], 2))
          = Some example_empty_paragraph
     \<and> replaceSelection_bias example_ext ([example_blockquote], 2) = Inr (- 1)
     \<and> Slice_openRight example_ext ([example_empty_paragraph], 2) = Suc 1
     \<and> replaceSelection_bias example_ext ([example_empty_paragraph], 2) = Inl TypeError"
    using r by (simp add: example_ext_fields)

  have s: "selection example_ext example_tr = (Text_sel 1 2, example_tr)"
    by (simp add: selection_def example_tr_fields)
  have rr: "replaceRange example_ext example_tr 1 2 ([example_paragraph], 0) =
       Inr (addStep example_ext example_tr [(1, 2, 1, 2)] ''abcr'')"
    by (simp add: replaceRange_def inherited_def example_ext_def example_tr_fields)
  have b: "replaceSelection_bias example_ext ([example_paragraph], 0) = Inr 1"
    by (simp add: replaceSelection_bias_def example_ext_fields last_of_def
        example_paragraph_def)
  have h: "selection example_ext example_tr = (Text_sel 1 2, example_tr)
        \<and> replaceRange example_ext example_tr (Selection_from example_ext (Text_sel 1 2))
            (Selection_to example_ext (Text_sel 1 2)) ([example_paragraph], 0) =
            Inr (addStep example_ext example_tr [(1, 2, 1, 2)] ''abcr'')
        \<and> replaceSelection_bias example_ext ([example_paragraph], 0) = Inr 1"
    using s rr b by (simp add: example_ext_fields)
  note c = replaceSelection_bias_by_descent [where E = example_ext and tr = example_tr
      and slc = "([example_paragraph], 0)" and sel = "Text_sel 1 2" and ?tr1.0 = example_tr
      and ?tr2.0 = "addStep example_ext example_tr [(1, 2, 1, 2)] ''abcr''" and bias = 1,
      THEN conjunct2, THEN conjunct2, rule_format, OF h]
  from s rr c have call:
    "selection example_ext example_tr = (Text_sel 1 2, example_tr)
     \<and> replaceRange example_ext example_tr 1 2 ([example_paragraph], 0) =
         Inr (addStep example_ext example_tr [(1, 2, 1, 2)] ''abcr'')
     \<and> replaceSelection example_ext example_tr ([example_paragraph], 0) =
         selectionToInsertionEnd example_ext
           (addStep example_ext example_tr [(1, 2, 1, 2)] ''abcr'') 0 1"
    by (simp add: example_tr_fields)
  from biases call show ?thesis by simp
qed

subsection \<open>Moving the selection to the end of the insertion\<close>

lemma forEach_end_snoc: "forEach_end (calls @ [(from, to, newFrom, newTo)]) = Some newTo"
  by (simp add: forEach_end_def)

lemma forEach_end_last:
  "forEach_end calls = (if calls = [] then None else Some (newTo_of (last calls)))"
proof (cases calls rule: rev_cases)
  case Nil
  then show ?thesis by (simp add: forEach_end_def)
next
  case (snoc ys y)
  then show ?thesis by (cases y) (simp add: forEach_end_snoc newTo_of_def)
qed

lemma sorted_last_Max:
  fixes xs :: "int list"
  shows "sorted xs \<Longrightarrow> xs \<noteq> [] \<Longrightarrow> last xs = Max (set xs)"
proof (induction xs)
  case Nil
  then show ?case by simp
next
  case (Cons x xs)
  show ?case
  proof (cases "xs = []")
    case True
    then show ?thesis by simp
  next
    case False
    with Cons have ih: "last xs = Max (set xs)" by simp
    from False have mem: "hd xs \<in> set xs" by simp
    from Cons.prems mem have "x \<le> hd xs" by auto
    also from mem have "hd xs \<le> Max (set xs)" by (rule Max_ge [OF finite_set])
    finally have "x \<le> Max (set xs)" .
    with False ih show ?thesis by (simp add: max_def)
  qed
qed

lemma addStep_fields:
  "steps (addStep E tr step d) = steps tr @ [step]"
  "mapping_maps (addStep E tr step d) = mapping_maps tr @ [Step_getMap E step]"
  "curSelection (addStep E tr step d) = curSelection tr"
  "curSelectionFor (addStep E tr step d) = curSelectionFor tr"
  "updated (addStep E tr step d) = updated tr AND NOT UPDATED_MARKS"
  by (simp_all add: addStep_def Transform_addStep_def Let_def)

lemma addSteps_snoc: "addSteps E tr (ps @ [(step, d)]) = addStep E (addSteps E tr ps) step d"
  by (induction ps arbitrary: tr) auto

lemma addSteps_fields:
  "steps (addSteps E tr ps) = steps tr @ map fst ps"
  "curSelection (addSteps E tr ps) = curSelection tr"
  "curSelectionFor (addSteps E tr ps) = curSelectionFor tr"
  "updated (addSteps E tr ps) = (if ps = [] then updated tr else updated tr AND NOT UPDATED_MARKS)"
  by (induction ps arbitrary: tr) (auto simp: addStep_fields and.assoc)

lemma selection_fields:
  "selection E tr = (sel, tr1) \<Longrightarrow>
     curSelection tr1 = sel \<and> updated tr1 = updated tr \<and> steps tr1 = steps tr
     \<and> doc tr1 = doc tr \<and> storedMarks tr1 = storedMarks tr"
  by (auto simp: selection_def Let_def split: if_splits)

lemma selection_cache:
  "selection E tr = (sel, tr1) \<Longrightarrow>
     sel = (if curSelectionFor tr < length (steps tr)
            then Selection_map E (curSelection tr) (doc tr)
                   (drop (curSelectionFor tr) (mapping_maps tr))
            else curSelection tr)
     \<and> curSelectionFor tr1 =
         (if curSelectionFor tr < length (steps tr) then length (steps tr)
          else curSelectionFor tr)"
  by (auto simp: selection_def Let_def split: if_splits)

text \<open>
  C3, as stated, fails: on a transaction whose only step has a map that reports no span,
  a step was appended since \<open>startLen = 0\<close>, yet the placement returns the transaction
  as it is and the selection is not set.
\<close>

theorem placement_without_span_counterexample:
  "length (steps example_tr_no_span) \<noteq> 0
   \<and> selectionToInsertionEnd example_ext example_tr_no_span 0 (- 1) = Inr example_tr_no_span
   \<and> \<not> selectionSet example_tr_no_span"
  by (simp add: selectionToInsertionEnd_def forEach_end_def example_ext_fields
      example_tr_no_span_def example_tr_def Transaction_def addStep_def Transform_addStep_def
      selectionSet_def Let_def)

text \<open>
  C3, amended. If no step was appended since \<open>startLen\<close>, the placement leaves the
  transaction as it is. Otherwise, when the map of the most recent step (the last of
  \<open>mapping.maps\<close>) reports at least one span, the placement sets the selection, by
  \<open>setSelection\<close>, to \<open>Selection.near\<close> of the current document resolved at the
  \<open>newTo\<close> of the last span reported, with the given bias; no other map is read. That
  position is the greatest \<open>newTo\<close> of the map when the spans are reported in ascending
  order, as a step map does.
\<close>

theorem selectionToInsertionEnd_effect:
  "(length (steps tr) = startLen \<longrightarrow> selectionToInsertionEnd E tr startLen bias = Inr tr)
   \<and> (length (steps tr) \<noteq> startLen \<and> mapping_maps tr \<noteq> []
        \<and> StepMap_forEach E (last (mapping_maps tr)) \<noteq> [] \<longrightarrow>
        (let calls = StepMap_forEach E (last (mapping_maps tr));
             endp = newTo_of (last calls)
         in selectionToInsertionEnd E tr startLen bias =
              Inr (setSelection tr (Selection_near E (Node_resolve E (doc tr) endp) bias))
            \<and> (sorted (map newTo_of calls) \<longrightarrow> endp = Max (set (map newTo_of calls)))))"
proof -
  have none: "length (steps tr) = startLen \<longrightarrow> selectionToInsertionEnd E tr startLen bias = Inr tr"
    by (simp add: selectionToInsertionEnd_def)
  have rightmost:
    "sorted (map newTo_of calls) \<longrightarrow> newTo_of (last calls) = Max (set (map newTo_of calls))"
    if "calls \<noteq> []" for calls :: "(int \<times> int \<times> int \<times> int) list"
    using that sorted_last_Max [of "map newTo_of calls"] by (simp add: last_map)
  have some: "length (steps tr) \<noteq> startLen \<and> mapping_maps tr \<noteq> []
        \<and> StepMap_forEach E (last (mapping_maps tr)) \<noteq> [] \<longrightarrow>
        (let calls = StepMap_forEach E (last (mapping_maps tr));
             endp = newTo_of (last calls)
         in selectionToInsertionEnd E tr startLen bias =
              Inr (setSelection tr (Selection_near E (Node_resolve E (doc tr) endp) bias))
            \<and> (sorted (map newTo_of calls) \<longrightarrow> endp = Max (set (map newTo_of calls))))"
    using rightmost [of "StepMap_forEach E (last (mapping_maps tr))"]
    by (simp add: selectionToInsertionEnd_def forEach_end_last Let_def)
  from none some show ?thesis by simp
qed

theorem selectionToInsertionEnd_effect_witness:
  "length (steps example_tr) = 0
   \<and> selectionToInsertionEnd example_ext example_tr 0 1 = Inr example_tr
   \<and> length (steps example_tr_two_spans) \<noteq> 0
   \<and> StepMap_forEach example_ext (last (mapping_maps example_tr_two_spans)) =
       [(1, 2, 1, 3), (5, 6, 6, 9)]
   \<and> sorted (map newTo_of [(1, 2, 1, 3), (5, 6, 6, 9)])
   \<and> selectionToInsertionEnd example_ext example_tr_two_spans 0 (- 1) =
       Inr (setSelection example_tr_two_spans (Text_sel 8 8))
   \<and> Max (set (map newTo_of [(1, 2, 1, 3), (5, 6, 6, 9)])) = 9"
proof -
  have h1: "length (steps example_tr) = 0"
    by (simp add: example_tr_fields)
  note c1 = selectionToInsertionEnd_effect [where E = example_ext and tr = example_tr
      and startLen = 0 and bias = 1, THEN conjunct1, rule_format, OF h1]
  have m: "StepMap_forEach example_ext (last (mapping_maps example_tr_two_spans)) =
       [(1, 2, 1, 3), (5, 6, 6, 9)]"
    by (simp add: example_tr_two_spans_def addStep_fields example_ext_fields)
  have ml: "last (mapping_maps example_tr_two_spans) = [(1, 2, 1, 3), (5, 6, 6, 9)]"
    by (simp add: example_tr_two_spans_def addStep_fields example_ext_fields)
  have h2: "length (steps example_tr_two_spans) \<noteq> 0 \<and> mapping_maps example_tr_two_spans \<noteq> []
      \<and> StepMap_forEach example_ext (last (mapping_maps example_tr_two_spans)) \<noteq> []"
    by (simp add: m) (simp add: example_tr_two_spans_def addStep_fields)
  have srt: "sorted (map newTo_of [(1, 2, 1, 3), (5, 6, 6, 9)])"
    by (simp add: newTo_of_def)
  note c2 = selectionToInsertionEnd_effect [where E = example_ext and tr = example_tr_two_spans
      and startLen = 0 and bias = "- 1", THEN conjunct2, rule_format, OF h2]
  from c2 srt have "selectionToInsertionEnd example_ext example_tr_two_spans 0 (- 1) =
       Inr (setSelection example_tr_two_spans (Text_sel 8 8))
     \<and> Max (set (map newTo_of [(1, 2, 1, 3), (5, 6, 6, 9)])) = 9"
    by (simp add: ml Let_def newTo_of_def example_ext_fields)
  with h1 c1 h2 m srt show ?thesis by simp
qed

lemma placement_no_span:
  "length (steps tr) \<noteq> startLen \<Longrightarrow> mapping_maps tr \<noteq> [] \<Longrightarrow>
   StepMap_forEach E (last (mapping_maps tr)) = [] \<Longrightarrow>
   selectionToInsertionEnd E tr startLen bias = Inr tr"
  by (simp add: selectionToInsertionEnd_def forEach_end_def)

lemma placement_after_addSteps:
  assumes "StepMap_forEach E (Step_getMap E step) = []"
  shows "selectionToInsertionEnd E (addSteps E tr1 (ps @ [(step, d)])) (length (steps tr1)) bias =
           Inr (addSteps E tr1 (ps @ [(step, d)]))"
proof (rule placement_no_span)
  show "length (steps (addSteps E tr1 (ps @ [(step, d)]))) \<noteq> length (steps tr1)"
    by (simp add: addSteps_fields)
  show "mapping_maps (addSteps E tr1 (ps @ [(step, d)])) \<noteq> []"
    by (simp add: addSteps_snoc addStep_fields)
  show "StepMap_forEach E (last (mapping_maps (addSteps E tr1 (ps @ [(step, d)])))) = []"
    using assms by (simp add: addSteps_snoc addStep_fields)
qed

lemma after_replacement_fields:
  assumes "selection E tr = (sel, tr1)"
  shows "curSelection (addSteps E tr1 (ps @ [(step, d)])) = sel
     \<and> curSelectionFor (addSteps E tr1 (ps @ [(step, d)])) = curSelectionFor tr1
     \<and> updated (addSteps E tr1 (ps @ [(step, d)])) = updated tr AND NOT UPDATED_MARKS
     \<and> selectionSet (addSteps E tr1 (ps @ [(step, d)])) = selectionSet tr
     \<and> scrolledIntoView (addSteps E tr1 (ps @ [(step, d)])) = scrolledIntoView tr
     \<and> \<not> storedMarksSet (addSteps E tr1 (ps @ [(step, d)]))
     \<and> storedMarks (addSteps E tr1 (ps @ [(step, d)])) = None"
proof -
  have m: "storedMarks (addSteps E tr1 (ps @ [(step, d)])) = None"
    by (simp add: addSteps_snoc addStep_def Transform_addStep_def Let_def)
  from selection_fields [OF assms] m show ?thesis
    by (simp add: addSteps_fields selectionSet_def scrolledIntoView_def storedMarksSet_def
        keep_sel_bit keep_scroll_bit marks_bit)
qed

text \<open>
  C10, as stated, fails. On the example transaction with one step, a cache not yet
  mapped through it and the stored-marks flag set, \<open>replaceSelection\<close> appends a step
  whose map reports no span and returns normally; yet the stored-marks flag goes from set
  to cleared (by \<open>addStep\<close>), and the selection read at the start of the call moves the
  cached selection from \<open>[1, 2]\<close> to \<open>[2, 3]\<close> and \<open>curSelectionFor\<close> from 0 to 1.
\<close>

theorem replaceSelection_without_span_counterexample:
  "replaceSelection example_ext_no_span example_tr_marks_set ([example_paragraph], 0) =
     Inr example_tr_replaced
   \<and> length (steps example_tr_marks_set) = 1
   \<and> length (steps example_tr_replaced) = 2
   \<and> StepMap_forEach example_ext_no_span (last (mapping_maps example_tr_replaced)) = []
   \<and> storedMarksSet example_tr_marks_set
   \<and> \<not> storedMarksSet example_tr_replaced
   \<and> updated example_tr_marks_set = 2
   \<and> updated example_tr_replaced = 0
   \<and> curSelection example_tr_marks_set = Text_sel 1 2
   \<and> curSelection example_tr_replaced = Text_sel 2 3
   \<and> curSelectionFor example_tr_marks_set = 0
   \<and> curSelectionFor example_tr_replaced = 1"
proof -
  have before: "example_tr_marks_set =
      \<lparr> doc = ''aXYZc'', docs = [''abc''], steps = [[(1, 2, 1, 4)]],
        mapping_maps = [[(1, 2, 1, 4)]], time = 1000, curSelection = Text_sel 1 2,
        curSelectionFor = 0, storedMarks = Some [''em''], updated = 2, meta = [] \<rparr>"
    by (simp add: example_tr_marks_set_def setStoredMarks_def example_tr_one_step_def
        addStep_def Transform_addStep_def Let_def example_tr_def Transaction_def
        example_state_def example_ext_fields UPDATED_MARKS_def)
  have read: "selection example_ext_no_span example_tr_marks_set =
      (Text_sel 2 3, example_tr_marks_set\<lparr>curSelection := Text_sel 2 3, curSelectionFor := 1\<rparr>)"
    by (simp add: before selection_def Let_def example_ext_no_span_fields)
  have bias: "replaceSelection_bias example_ext_no_span ([example_paragraph], 0) = Inr 1"
    by (simp add: replaceSelection_bias_def example_ext_no_span_fields last_of_def
        example_paragraph_def)
  have call: "replaceSelection example_ext_no_span example_tr_marks_set ([example_paragraph], 0) =
      Inr \<lparr> doc = ''aXYZcr'', docs = [''abc'', ''aXYZc''], steps = [[(1, 2, 1, 4)], []],
            mapping_maps = [[(1, 2, 1, 4)], []], time = 1000, curSelection = Text_sel 2 3,
            curSelectionFor = 1, storedMarks = None, updated = 0, meta = [] \<rparr>"
    by (simp add: replaceSelection_def read bias replaceRange_def inherited_def
        example_ext_no_span_fields selectionToInsertionEnd_def forEach_end_def)
      (simp add: before addStep_def Transform_addStep_def Let_def example_ext_no_span_fields
        UPDATED_MARKS_def)
  have after: "example_tr_replaced =
      \<lparr> doc = ''aXYZcr'', docs = [''abc'', ''aXYZc''], steps = [[(1, 2, 1, 4)], []],
        mapping_maps = [[(1, 2, 1, 4)], []], time = 1000, curSelection = Text_sel 2 3,
        curSelectionFor = 1, storedMarks = None, updated = 0, meta = [] \<rparr>"
    by (simp add: example_tr_replaced_def call)
  show ?thesis
    by (simp add: call) (simp add: before after storedMarksSet_def UPDATED_MARKS_def
        example_ext_no_span_fields)
qed

text \<open>
  C10, amended. When a step was appended and the map of the most recent step reports no
  span, the placement does not call \<open>setSelection\<close>: it returns the transaction as it is.
  So a call of \<open>replaceSelection\<close> or \<open>replaceSelectionWith\<close> whose range replacement
  appends at least one step, the last with such a map, and returns, ends with the
  transaction exactly as the range replacement left it. Against the transaction before
  the call: the cached selection and \<open>curSelectionFor\<close> are those left by the selection
  read at the start of the call (mapped through the steps not yet accounted for, and
  \<open>steps.length\<close> as it was then, when the cache was behind; unchanged otherwise),
  \<open>updated\<close> has lost its stored-marks bit and nothing else, so \<open>selectionSet\<close> and
  \<open>scrolledIntoView\<close> are unchanged and \<open>storedMarksSet\<close> is false, and \<open>storedMarks\<close>
  is \<open>null\<close>.
\<close>

theorem placement_skipped_without_spans:
  "(length (steps tr) \<noteq> startLen \<and> mapping_maps tr \<noteq> []
      \<and> StepMap_forEach E (last (mapping_maps tr)) = [] \<longrightarrow>
      selectionToInsertionEnd E tr startLen bias = Inr tr)
   \<and> (selection E tr = (sel, tr1)
        \<and> res = addSteps E tr1 (ps @ [(step, d)])
        \<and> StepMap_forEach E (Step_getMap E step) = []
        \<and> ((Transform_replaceRange E (doc tr1) (Selection_from E sel) (Selection_to E sel) slc =
               (ps @ [(step, d)], None)
             \<and> replaceSelection_bias E slc = Inr b
             \<and> call = replaceSelection E tr slc)
            \<or> (node1 = (if inheritMarks \<noteq> Some False then
                            Node_mark E node
                              (case storedMarks tr1 of
                                 Some ms \<Rightarrow> ms
                               | None \<Rightarrow> ResolvedPos_marks E (Selection_rfrom E sel)
                                           (Selection_to E sel > Selection_from E sel))
                          else node)
                \<and> Transform_replaceRangeWith E (doc tr1) (Selection_from E sel)
                     (Some (Selection_to E sel)) node1 = (ps @ [(step, d)], None)
                \<and> call = replaceSelectionWith E tr node inheritMarks)) \<longrightarrow>
        call = Inr res
        \<and> curSelection res =
            (if curSelectionFor tr < length (steps tr)
             then Selection_map E (curSelection tr) (doc tr)
                    (drop (curSelectionFor tr) (mapping_maps tr))
             else curSelection tr)
        \<and> curSelectionFor res =
            (if curSelectionFor tr < length (steps tr) then length (steps tr)
             else curSelectionFor tr)
        \<and> updated res = updated tr AND NOT UPDATED_MARKS
        \<and> selectionSet res = selectionSet tr
        \<and> scrolledIntoView res = scrolledIntoView tr
        \<and> \<not> storedMarksSet res
        \<and> storedMarks res = None)"
proof (intro conjI impI)
  assume "length (steps tr) \<noteq> startLen \<and> mapping_maps tr \<noteq> []
      \<and> StepMap_forEach E (last (mapping_maps tr)) = []"
  then show "selectionToInsertionEnd E tr startLen bias = Inr tr"
    by (simp add: placement_no_span)
next
  assume h: "selection E tr = (sel, tr1)
        \<and> res = addSteps E tr1 (ps @ [(step, d)])
        \<and> StepMap_forEach E (Step_getMap E step) = []
        \<and> ((Transform_replaceRange E (doc tr1) (Selection_from E sel) (Selection_to E sel) slc =
               (ps @ [(step, d)], None)
             \<and> replaceSelection_bias E slc = Inr b
             \<and> call = replaceSelection E tr slc)
            \<or> (node1 = (if inheritMarks \<noteq> Some False then
                            Node_mark E node
                              (case storedMarks tr1 of
                                 Some ms \<Rightarrow> ms
                               | None \<Rightarrow> ResolvedPos_marks E (Selection_rfrom E sel)
                                           (Selection_to E sel > Selection_from E sel))
                          else node)
                \<and> Transform_replaceRangeWith E (doc tr1) (Selection_from E sel)
                     (Some (Selection_to E sel)) node1 = (ps @ [(step, d)], None)
                \<and> call = replaceSelectionWith E tr node inheritMarks))"
  from h have s: "selection E tr = (sel, tr1)" by (rule conjunct1)
  from h have r: "res = addSteps E tr1 (ps @ [(step, d)])"
    by (rule conjunct2 [THEN conjunct1])
  from h have e: "StepMap_forEach E (Step_getMap E step) = []"
    by (rule conjunct2 [THEN conjunct2, THEN conjunct1])
  from h have alt:
    "(Transform_replaceRange E (doc tr1) (Selection_from E sel) (Selection_to E sel) slc =
               (ps @ [(step, d)], None)
             \<and> replaceSelection_bias E slc = Inr b
             \<and> call = replaceSelection E tr slc)
     \<or> (node1 = (if inheritMarks \<noteq> Some False then
                            Node_mark E node
                              (case storedMarks tr1 of
                                 Some ms \<Rightarrow> ms
                               | None \<Rightarrow> ResolvedPos_marks E (Selection_rfrom E sel)
                                           (Selection_to E sel > Selection_from E sel))
                          else node)
                \<and> Transform_replaceRangeWith E (doc tr1) (Selection_from E sel)
                     (Some (Selection_to E sel)) node1 = (ps @ [(step, d)], None)
                \<and> call = replaceSelectionWith E tr node inheritMarks)"
    by (rule conjunct2 [THEN conjunct2, THEN conjunct2])
  from alt show "call = Inr res"
  proof
    assume a: "Transform_replaceRange E (doc tr1) (Selection_from E sel) (Selection_to E sel) slc =
               (ps @ [(step, d)], None)
             \<and> replaceSelection_bias E slc = Inr b
             \<and> call = replaceSelection E tr slc"
    then have "replaceRange E tr1 (Selection_from E sel) (Selection_to E sel) slc =
               Inr (addSteps E tr1 (ps @ [(step, d)]))"
      by (simp add: replaceRange_def inherited_def)
    with a s show ?thesis
      by (simp add: replaceSelection_def r placement_after_addSteps [OF e])
  next
    assume a: "node1 = (if inheritMarks \<noteq> Some False then
                            Node_mark E node
                              (case storedMarks tr1 of
                                 Some ms \<Rightarrow> ms
                               | None \<Rightarrow> ResolvedPos_marks E (Selection_rfrom E sel)
                                           (Selection_to E sel > Selection_from E sel))
                          else node)
                \<and> Transform_replaceRangeWith E (doc tr1) (Selection_from E sel)
                     (Some (Selection_to E sel)) node1 = (ps @ [(step, d)], None)
                \<and> call = replaceSelectionWith E tr node inheritMarks"
    from a have n: "node1 = (if inheritMarks \<noteq> Some False then
                            Node_mark E node
                              (case storedMarks tr1 of
                                 Some ms \<Rightarrow> ms
                               | None \<Rightarrow> ResolvedPos_marks E (Selection_rfrom E sel)
                                           (Selection_to E sel > Selection_from E sel))
                          else node)"
      by (rule conjunct1)
    from a have tr: "Transform_replaceRangeWith E (doc tr1) (Selection_from E sel)
                     (Some (Selection_to E sel)) node1 = (ps @ [(step, d)], None)"
      by (rule conjunct2 [THEN conjunct1])
    from a have c: "call = replaceSelectionWith E tr node inheritMarks"
      by (rule conjunct2 [THEN conjunct2])
    have rr: "replaceRangeWith E tr1 (Selection_from E sel) (Some (Selection_to E sel)) node1 =
               Inr (addSteps E tr1 (ps @ [(step, d)]))"
      by (simp add: replaceRangeWith_def inherited_def tr)
    have "replaceSelectionWith E tr node inheritMarks =
          (case replaceRangeWith E tr1 (Selection_from E sel) (Some (Selection_to E sel)) node1 of
             Inl err \<Rightarrow> Inl err
           | Inr tr2 \<Rightarrow>
               selectionToInsertionEnd E tr2 (length (steps tr1))
                 (if Node_isInline E node1 then - 1 else 1))"
      unfolding n by (simp add: replaceSelectionWith_def s Let_def)
    then show ?thesis
      by (simp only: c r rr sum.case placement_after_addSteps [OF e])
  qed
  from after_replacement_fields [OF s, of ps step d] selection_cache [OF s]
  show "curSelection res =
            (if curSelectionFor tr < length (steps tr)
             then Selection_map E (curSelection tr) (doc tr)
                    (drop (curSelectionFor tr) (mapping_maps tr))
             else curSelection tr)"
    "curSelectionFor res =
            (if curSelectionFor tr < length (steps tr) then length (steps tr)
             else curSelectionFor tr)"
    "updated res = updated tr AND NOT UPDATED_MARKS"
    "selectionSet res = selectionSet tr"
    "scrolledIntoView res = scrolledIntoView tr"
    "\<not> storedMarksSet res"
    "storedMarks res = None"
    by (simp_all add: r)
qed

theorem placement_skipped_without_spans_witness:
  "length (steps example_tr_no_span) \<noteq> 0 \<and> mapping_maps example_tr_no_span \<noteq> []
   \<and> StepMap_forEach example_ext (last (mapping_maps example_tr_no_span)) = []
   \<and> selectionToInsertionEnd example_ext example_tr_no_span 0 1 = Inr example_tr_no_span
   \<and> selection example_ext_no_span example_tr_marks_set =
       (Text_sel 2 3, example_tr_marks_set\<lparr>curSelection := Text_sel 2 3, curSelectionFor := 1\<rparr>)
   \<and> Transform_replaceRange example_ext_no_span ''aXYZc'' 2 3 ([example_paragraph], 0) =
       ([([], ''aXYZcr'')], None)
   \<and> replaceSelection example_ext_no_span example_tr_marks_set ([example_paragraph], 0) =
       Inr (addSteps example_ext_no_span
             (example_tr_marks_set\<lparr>curSelection := Text_sel 2 3, curSelectionFor := 1\<rparr>)
             [([], ''aXYZcr'')])
   \<and> curSelection (addSteps example_ext_no_span
         (example_tr_marks_set\<lparr>curSelection := Text_sel 2 3, curSelectionFor := 1\<rparr>)
         [([], ''aXYZcr'')]) = Text_sel 2 3
   \<and> curSelectionFor (addSteps example_ext_no_span
         (example_tr_marks_set\<lparr>curSelection := Text_sel 2 3, curSelectionFor := 1\<rparr>)
         [([], ''aXYZcr'')]) = 1
   \<and> updated (addSteps example_ext_no_span
         (example_tr_marks_set\<lparr>curSelection := Text_sel 2 3, curSelectionFor := 1\<rparr>)
         [([], ''aXYZcr'')]) = 0
   \<and> selection example_ext_no_span example_tr = (Text_sel 1 2, example_tr)
   \<and> Transform_replaceRangeWith example_ext_no_span ''abc'' 1 (Some 2) example_text =
       ([([], ''abcw'')], None)
   \<and> replaceSelectionWith example_ext_no_span example_tr example_text None =
       Inr (addSteps example_ext_no_span example_tr [([], ''abcw'')])
   \<and> curSelection (addSteps example_ext_no_span example_tr [([], ''abcw'')]) = Text_sel 1 2
   \<and> curSelectionFor (addSteps example_ext_no_span example_tr [([], ''abcw'')]) = 0
   \<and> storedMarks (addSteps example_ext_no_span example_tr [([], ''abcw'')]) = None"
proof -
  have p1: "length (steps example_tr_no_span) \<noteq> 0 \<and> mapping_maps example_tr_no_span \<noteq> []
      \<and> StepMap_forEach example_ext (last (mapping_maps example_tr_no_span)) = []"
    by (simp add: example_tr_no_span_def addStep_fields example_ext_fields)
  note c1 = placement_skipped_without_spans [where E = example_ext and tr = example_tr_no_span
      and startLen = 0 and bias = 1, THEN conjunct1, rule_format, OF p1]
  define tr1 where
    "tr1 = example_tr_marks_set\<lparr>curSelection := Text_sel 2 3, curSelectionFor := 1\<rparr>"
  have before: "curSelectionFor example_tr_marks_set = 0
      \<and> steps example_tr_marks_set = [[(1, 2, 1, 4)]]
      \<and> mapping_maps example_tr_marks_set = [[(1, 2, 1, 4)]]
      \<and> curSelection example_tr_marks_set = Text_sel 1 2
      \<and> doc example_tr_marks_set = ''aXYZc''
      \<and> updated example_tr_marks_set = 2"
    by (simp add: example_tr_marks_set_def setStoredMarks_def example_tr_one_step_def
        addStep_def Transform_addStep_def Let_def example_tr_fields example_ext_fields
        UPDATED_MARKS_def)
  have s2: "selection example_ext_no_span example_tr_marks_set = (Text_sel 2 3, tr1)"
    by (simp add: selection_def Let_def before example_ext_no_span_fields tr1_def)
  have b: "replaceSelection_bias example_ext_no_span ([example_paragraph], 0) = Inr 1"
    by (simp add: replaceSelection_bias_def example_ext_no_span_fields last_of_def
        example_paragraph_def)
  have d1: "doc tr1 = ''aXYZc''"
    by (simp add: tr1_def before)
  have p2: "selection example_ext_no_span example_tr_marks_set = (Text_sel 2 3, tr1)
      \<and> addSteps example_ext_no_span tr1 [([], ''aXYZcr'')] =
          addSteps example_ext_no_span tr1 ([] @ [([], ''aXYZcr'')])
      \<and> StepMap_forEach example_ext_no_span (Step_getMap example_ext_no_span []) = []
      \<and> ((Transform_replaceRange example_ext_no_span (doc tr1)
             (Selection_from example_ext_no_span (Text_sel 2 3))
             (Selection_to example_ext_no_span (Text_sel 2 3)) ([example_paragraph], 0) =
             ([] @ [([], ''aXYZcr'')], None)
           \<and> replaceSelection_bias example_ext_no_span ([example_paragraph], 0) = Inr 1
           \<and> replaceSelection example_ext_no_span example_tr_marks_set ([example_paragraph], 0) =
               replaceSelection example_ext_no_span example_tr_marks_set ([example_paragraph], 0))
          \<or> (example_text = (if None \<noteq> Some False then
                            Node_mark example_ext_no_span example_text
                              (case storedMarks tr1 of
                                 Some ms \<Rightarrow> ms
                               | None \<Rightarrow> ResolvedPos_marks example_ext_no_span
                                           (Selection_rfrom example_ext_no_span (Text_sel 2 3))
                                           (Selection_to example_ext_no_span (Text_sel 2 3)
                                             > Selection_from example_ext_no_span (Text_sel 2 3)))
                          else example_text)
              \<and> Transform_replaceRangeWith example_ext_no_span (doc tr1)
                   (Selection_from example_ext_no_span (Text_sel 2 3))
                   (Some (Selection_to example_ext_no_span (Text_sel 2 3))) example_text =
                   ([] @ [([], ''aXYZcr'')], None)
              \<and> replaceSelection example_ext_no_span example_tr_marks_set ([example_paragraph], 0) =
                  replaceSelectionWith example_ext_no_span example_tr_marks_set example_text None))"
    using s2 b by (simp add: example_ext_no_span_fields d1)
  note c2 = placement_skipped_without_spans [where E = example_ext_no_span
      and tr = example_tr_marks_set and sel = "Text_sel 2 3" and ?tr1.0 = tr1
      and res = "addSteps example_ext_no_span tr1 [([], ''aXYZcr'')]"
      and slc = "([example_paragraph], 0)"
      and ps = "[]" and step = "[]" and d = "''aXYZcr''" and b = 1
      and call = "replaceSelection example_ext_no_span example_tr_marks_set ([example_paragraph], 0)"
      and node = example_text and ?node1.0 = example_text and inheritMarks = None,
      THEN conjunct2, rule_format, OF p2]
  have s3: "selection example_ext_no_span example_tr = (Text_sel 1 2, example_tr)"
    by (simp add: selection_def example_tr_fields)
  have p3: "selection example_ext_no_span example_tr = (Text_sel 1 2, example_tr)
      \<and> addSteps example_ext_no_span example_tr [([], ''abcw'')] =
          addSteps example_ext_no_span example_tr ([] @ [([], ''abcw'')])
      \<and> StepMap_forEach example_ext_no_span (Step_getMap example_ext_no_span []) = []
      \<and> ((Transform_replaceRange example_ext_no_span (doc example_tr)
             (Selection_from example_ext_no_span (Text_sel 1 2))
             (Selection_to example_ext_no_span (Text_sel 1 2)) ([example_paragraph], 0) =
             ([] @ [([], ''abcw'')], None)
           \<and> replaceSelection_bias example_ext_no_span ([example_paragraph], 0) = Inr 1
           \<and> replaceSelectionWith example_ext_no_span example_tr example_text None =
               replaceSelection example_ext_no_span example_tr ([example_paragraph], 0))
          \<or> (example_text = (if None \<noteq> Some False then
                            Node_mark example_ext_no_span example_text
                              (case storedMarks example_tr of
                                 Some ms \<Rightarrow> ms
                               | None \<Rightarrow> ResolvedPos_marks example_ext_no_span
                                           (Selection_rfrom example_ext_no_span (Text_sel 1 2))
                                           (Selection_to example_ext_no_span (Text_sel 1 2)
                                             > Selection_from example_ext_no_span (Text_sel 1 2)))
                          else example_text)
              \<and> Transform_replaceRangeWith example_ext_no_span (doc example_tr)
                   (Selection_from example_ext_no_span (Text_sel 1 2))
                   (Some (Selection_to example_ext_no_span (Text_sel 1 2))) example_text =
                   ([] @ [([], ''abcw'')], None)
              \<and> replaceSelectionWith example_ext_no_span example_tr example_text None =
                  replaceSelectionWith example_ext_no_span example_tr example_text None))"
    using s3 by (simp add: example_ext_no_span_fields example_tr_fields)
  note c3 = placement_skipped_without_spans [where E = example_ext_no_span
      and tr = example_tr and sel = "Text_sel 1 2" and ?tr1.0 = example_tr
      and res = "addSteps example_ext_no_span example_tr [([], ''abcw'')]"
      and slc = "([example_paragraph], 0)"
      and ps = "[]" and step = "[]" and d = "''abcw''" and b = 1
      and call = "replaceSelectionWith example_ext_no_span example_tr example_text None"
      and node = example_text and ?node1.0 = example_text and inheritMarks = None,
      THEN conjunct2, rule_format, OF p3]
  have first: "length (steps example_tr_no_span) \<noteq> 0 \<and> mapping_maps example_tr_no_span \<noteq> []
      \<and> StepMap_forEach example_ext (last (mapping_maps example_tr_no_span)) = []
      \<and> selectionToInsertionEnd example_ext example_tr_no_span 0 1 = Inr example_tr_no_span"
    using p1 c1 by simp
  have second: "selection example_ext_no_span example_tr_marks_set = (Text_sel 2 3, tr1)
      \<and> Transform_replaceRange example_ext_no_span ''aXYZc'' 2 3 ([example_paragraph], 0) =
          ([([], ''aXYZcr'')], None)
      \<and> replaceSelection example_ext_no_span example_tr_marks_set ([example_paragraph], 0) =
          Inr (addSteps example_ext_no_span tr1 [([], ''aXYZcr'')])
      \<and> curSelection (addSteps example_ext_no_span tr1 [([], ''aXYZcr'')]) = Text_sel 2 3
      \<and> curSelectionFor (addSteps example_ext_no_span tr1 [([], ''aXYZcr'')]) = 1
      \<and> updated (addSteps example_ext_no_span tr1 [([], ''aXYZcr'')]) = 0"
    using s2 c2 by (simp add: before example_ext_no_span_fields UPDATED_MARKS_def)
  have third: "selection example_ext_no_span example_tr = (Text_sel 1 2, example_tr)
      \<and> Transform_replaceRangeWith example_ext_no_span ''abc'' 1 (Some 2) example_text =
          ([([], ''abcw'')], None)
      \<and> replaceSelectionWith example_ext_no_span example_tr example_text None =
          Inr (addSteps example_ext_no_span example_tr [([], ''abcw'')])
      \<and> curSelection (addSteps example_ext_no_span example_tr [([], ''abcw'')]) = Text_sel 1 2
      \<and> curSelectionFor (addSteps example_ext_no_span example_tr [([], ''abcw'')]) = 0
      \<and> storedMarks (addSteps example_ext_no_span example_tr [([], ''abcw'')]) = None"
    using s3 c3 by (simp add: example_tr_fields example_ext_no_span_fields)
  from first second third show ?thesis unfolding tr1_def by blast
qed

end
